theory Spec2Isabelle
  imports Complex_Main
begin

section \<open>Python values and exceptions\<close>

text \<open>
  The module \<^verbatim>\<open>hw5/pipeline/predict.py\<close> wraps scikit-learn estimators and pandas
  frames. Hyperparameters, seeds and thresholds are dynamically typed Python values; the
  code only forwards them or tests their truth value.
\<close>

datatype pyval = PyNone | PyInt int | PyFloat real

text \<open>Python's truth value, as used by \<^verbatim>\<open>if threshold:\<close>.\<close>

fun truthy :: "pyval \<Rightarrow> bool" where
  "truthy PyNone = False"
| "truthy (PyInt n) = (n \<noteq> 0)"
| "truthy (PyFloat x) = (x \<noteq> 0)"

text \<open>
  Every \<^verbatim>\<open>raise\<close> is a value. \<open>CountMismatch m d\<close> is the one exception the module
  raises itself (\<^verbatim>\<open>Exception("Number of models (m) does not match test sets (d).")\<close>);
  \<open>KeyError\<close>, \<open>IndexError\<close>, \<open>ValueError\<close>, \<open>TypeError\<close> and \<open>AttributeError\<close> come
  from the language and from the pandas and numpy operations modelled below; \<open>Raised msg\<close> is
  whatever an opaque collaborator (a scikit-learn call, the result module) raises.
\<close>

datatype error =
    CountMismatch nat nat
  | KeyError
  | IndexError
  | ValueError
  | TypeError
  | AttributeError
  | Raised string

definition raised :: "string + 'a \<Rightarrow> error + 'a" where
  "raised r = (case r of Inl msg \<Rightarrow> Inl (Raised msg) | Inr x \<Rightarrow> Inr x)"

section \<open>The pandas and numpy operations the module calls\<close>

text \<open>
  A frame has an index of \<open>nrows\<close> entries and an ordered list of labelled columns (labels
  may repeat). An array is one-dimensional (\<open>Vec\<close>) or two-dimensional (\<open>Mat n cs\<close>, of
  shape \<open>(n, length cs)\<close>, held by columns).
\<close>

record ('k, 'v) dataframe =
  nrows :: nat
  cols :: "('k \<times> 'v list) list"

datatype 'v ndarray = Vec "'v list" | Mat nat "'v list list"

text \<open>The pandas invariant: every column is as long as the index.\<close>

definition wf_dataframe :: "('k, 'v) dataframe \<Rightarrow> bool" where
  "wf_dataframe df = list_all (\<lambda>c. length (snd c) = nrows df) (cols df)"

text \<open>\<^verbatim>\<open>df.values\<close>\<close>

definition values_of :: "('k, 'v) dataframe \<Rightarrow> 'v ndarray" where
  "values_of df = Mat (nrows df) (map snd (cols df))"

text \<open>
  \<^verbatim>\<open>df.drop(columns=[k])\<close>: a new frame without the columns labelled \<open>k\<close>; \<^verbatim>\<open>KeyError\<close>
  when no column has that label.
\<close>

definition drop_columns :: "'k \<Rightarrow> ('k, 'v) dataframe \<Rightarrow> error + ('k, 'v) dataframe" where
  "drop_columns k df =
     (if k \<in> set (map fst (cols df))
      then Inr (df\<lparr>cols := filter (\<lambda>c. fst c \<noteq> k) (cols df)\<rparr>)
      else Inl KeyError)"

text \<open>
  \<^verbatim>\<open>df[k].values\<close>: \<^verbatim>\<open>KeyError\<close> when no column is labelled \<open>k\<close>; the column as a
  one-dimensional array when exactly one is; when several are, \<^verbatim>\<open>df[k]\<close> is a frame and its
  values are two-dimensional.
\<close>

definition getitem_values :: "'k \<Rightarrow> ('k, 'v) dataframe \<Rightarrow> error + 'v ndarray" where
  "getitem_values k df =
     (case filter (\<lambda>c. fst c = k) (cols df) of
        [] \<Rightarrow> Inl KeyError
      | [c] \<Rightarrow> Inr (Vec (snd c))
      | c # d # cs \<Rightarrow> Inr (Mat (nrows df) (map snd (c # d # cs))))"

text \<open>\<^verbatim>\<open>a[:,1]\<close>: the second column of a two-dimensional array.\<close>

fun column1 :: "'v ndarray \<Rightarrow> error + 'v ndarray" where
  "column1 (Vec xs) = Inl IndexError"
| "column1 (Mat n cs) = (if 1 < length cs then Inr (Vec (cs ! 1)) else Inl IndexError)"

text \<open>
  \<^verbatim>\<open>pd.DataFrame({k1: a1, ...}, dtype=float)\<close> on arrays: every array must be
  one-dimensional and all of one length, and every cell must convert to a float
  (\<open>to_float\<close>, a parameter: \<open>None\<close> where the conversion fails); \<^verbatim>\<open>ValueError\<close> otherwise.
\<close>

fun vec_data :: "'v ndarray \<Rightarrow> 'v list option" where
  "vec_data (Vec xs) = Some xs"
| "vec_data (Mat n cs) = None"

definition same_length :: "'a list list \<Rightarrow> bool" where
  "same_length xss = (case xss of [] \<Rightarrow> True | xs # _ \<Rightarrow> list_all (\<lambda>ys. length ys = length xs) xss)"

definition DataFrame_float ::
  "('v \<Rightarrow> 'v option) \<Rightarrow> (string \<times> 'v ndarray) list \<Rightarrow> error + (string, 'v) dataframe" where
  "DataFrame_float to_float d =
     (case those (map (vec_data \<circ> snd) d) of
        None \<Rightarrow> Inl ValueError
      | Some vs \<Rightarrow>
          if \<not> same_length vs then Inl ValueError
          else (case those (map (\<lambda>v. those (map to_float v)) vs) of
                  None \<Rightarrow> Inl ValueError
                | Some fs \<Rightarrow>
                    Inr \<lparr>nrows = (case fs of [] \<Rightarrow> 0 | f # _ \<Rightarrow> length f),
                         cols = zip (map fst d) fs\<rparr>))"

section \<open>scikit-learn estimators\<close>

text \<open>
  An estimator object is its class with the constructor arguments the module passes. A
  fitted model is such an object together with what fitting learned: its three prediction
  methods, opaque functions of the feature matrix that return an array or raise.
\<close>

datatype estimator =
    DummyClassifier pyval
  | LogisticRegression string pyval pyval
  | DecisionTreeClassifier pyval pyval
  | KNeighborsClassifier pyval
  | StandardScaler
  | LinearSVC pyval bool pyval
  | RandomForestClassifier pyval pyval
  | BaggingClassifier pyval pyval
  | AdaBoostClassifier pyval pyval
  | Pipeline "(string \<times> estimator) list"
  | OtherClass string

record 'v fitted =
  decision_function :: "'v ndarray \<Rightarrow> string + 'v ndarray"
  predict_proba :: "'v ndarray \<Rightarrow> string + 'v ndarray"
  predict :: "'v ndarray \<Rightarrow> string + 'v ndarray"

record 'v model = "'v fitted" +
  estimator :: estimator

text \<open>\<^verbatim>\<open>isinstance(e, LinearSVC)\<close>\<close>

fun isinstance_LinearSVC :: "estimator \<Rightarrow> bool" where
  "isinstance_LinearSVC (LinearSVC c d s) = True"
| "isinstance_LinearSVC _ = False"

text \<open>
  \<^verbatim>\<open>isinstance(model, Pipeline) and isinstance(model.named_steps.svm, LinearSVC)\<close>:
  \<^verbatim>\<open>and\<close> short-circuits on a model that is no pipeline; \<^verbatim>\<open>named_steps\<close> is built from
  \<^verbatim>\<open>dict(steps)\<close> (the last step of a name wins) and raises \<^verbatim>\<open>AttributeError\<close> for a name
  that is no step.
\<close>

definition is_svm_pipeline :: "estimator \<Rightarrow> error + bool" where
  "is_svm_pipeline e =
     (case e of
        Pipeline steps \<Rightarrow>
          (case map_of (rev steps) ''svm'' of
             None \<Rightarrow> Inl AttributeError
           | Some s \<Rightarrow> Inr (isinstance_LinearSVC s))
      | _ \<Rightarrow> Inr False)"

section \<open>Opaque collaborators\<close>

text \<open>
  Modelled from the spec: the module \<^verbatim>\<open>result\<close> of the package is not part of the sources
  at hand. Its \<^verbatim>\<open>PredictionResult\<close> is, in the spec's words, a thin container aggregating
  per-row actual label, predicted score and predicted class: a wrapper around the result
  table it is constructed from.
\<close>

datatype 'v prediction_result = PredictionResult (table: "(string, 'v) dataframe")

text \<open>
  Everything else the module calls and does not define is a parameter: the float
  conversion of pandas, \<^verbatim>\<open>estimator.fit\<close> of scikit-learn (construction and fitting of an
  estimator on a feature matrix and a label array, giving the learned methods), and the
  operations of the result module (\<open>'c\<close> is its \<^verbatim>\<open>ResultCollection\<close>;
  \<^verbatim>\<open>collection.join(name, x)\<close> takes a result or a collection and gives the updated
  collection).
\<close>

record ('v, 'c) externals =
  to_float :: "'v \<Rightarrow> 'v option"
  sk_fit :: "estimator \<Rightarrow> 'v ndarray \<Rightarrow> 'v ndarray \<Rightarrow> string + 'v fitted"
  with_threshold :: "pyval \<Rightarrow> 'v prediction_result \<Rightarrow> string + 'v prediction_result"
  with_thresholds :: "pyval list \<Rightarrow> 'v prediction_result \<Rightarrow> string + 'v prediction_result list"
  new_collection :: 'c
  from_stack :: "'v prediction_result list \<Rightarrow> pyval list option \<Rightarrow> string + 'c"
  join :: "'c \<Rightarrow> string \<Rightarrow> 'v prediction_result + 'c \<Rightarrow> string + 'c"

section \<open>Trainer\<close>

text \<open>
  \<^verbatim>\<open>Trainer(*dfs, label_colname=None, seed=None)\<close> and \<^verbatim>\<open>Tester(*dfs, label_colname=None)\<close>
  hold the same two fields; the trainer adds the seed. Column labels are any hashable
  Python value (\<open>'k\<close>), \<^verbatim>\<open>None\<close> included.
\<close>

record ('k, 'v) tester =
  dfs :: "('k, 'v) dataframe list"
  label_colname :: 'k

record ('k, 'v) trainer = "('k, 'v) tester" +
  seed :: pyval

text \<open>
  The body of the generators \<^verbatim>\<open>_training_data\<close> and \<^verbatim>\<open>_test_data\<close> for one frame:
  \<^verbatim>\<open>X = df.drop(columns=[label]).values; y = df[label].values\<close>.
\<close>

definition features_and_label ::
  "'k \<Rightarrow> ('k, 'v) dataframe \<Rightarrow> error + 'v ndarray \<times> 'v ndarray" where
  "features_and_label k df =
     (case drop_columns k df of
        Inl e \<Rightarrow> Inl e
      | Inr d \<Rightarrow>
          (case getitem_values k df of
             Inl e \<Rightarrow> Inl e
           | Inr y \<Rightarrow> Inr (values_of d, y)))"

text \<open>
  A generator is the list of what each resumption gives: a yielded pair or the exception
  raised on the way to it. The consuming loop below stops at the first exception, so nothing
  after it is ever run.
\<close>

definition u_training_data ::
  "('k, 'v) trainer \<Rightarrow> (error + 'v ndarray \<times> 'v ndarray) list" where
  "u_training_data self = map (features_and_label (label_colname self)) (dfs self)"

text \<open>
  \<^verbatim>\<open>model = <estimator>; model.fit(X, y)\<close>: the object appended is the estimator the
  trainer constructed, now fitted.
\<close>

definition fit_model ::
  "('v, 'c) externals \<Rightarrow> estimator \<Rightarrow> 'v ndarray \<Rightarrow> 'v ndarray \<Rightarrow> error + 'v model" where
  "fit_model E e X y =
     (case raised (sk_fit E e X y) of
        Inl err \<Rightarrow> Inl err
      | Inr f \<Rightarrow>
          Inr \<lparr>decision_function = decision_function f, predict_proba = predict_proba f,
               predict = predict f, estimator = e\<rparr>)"

text \<open>\<^verbatim>\<open>models = []; for X, y in self._training_data(): ...; models.append(model)\<close>\<close>

fun fit_loop ::
  "('v, 'c) externals \<Rightarrow> estimator \<Rightarrow> (error + 'v ndarray \<times> 'v ndarray) list \<Rightarrow>
   error + 'v model list" where
  "fit_loop E e [] = Inr []"
| "fit_loop E e (Inl err # items) = Inl err"
| "fit_loop E e (Inr (X, y) # items) =
     (case fit_model E e X y of
        Inl err \<Rightarrow> Inl err
      | Inr m \<Rightarrow>
          (case fit_loop E e items of
             Inl err \<Rightarrow> Inl err
           | Inr ms \<Rightarrow> Inr (m # ms)))"

text \<open>
  \<^verbatim>\<open>return models if len(models) > 1 else models[0]\<close>: a list of models, or one bare
  model; \<^verbatim>\<open>IndexError\<close> on the empty list.
\<close>

datatype 'm trained = Models "'m list" | Model 'm

definition models_or_first :: "'m list \<Rightarrow> error + 'm trained" where
  "models_or_first models =
     (if 1 < length models then Inr (Models models)
      else (case models of [] \<Rightarrow> Inl IndexError | m # _ \<Rightarrow> Inr (Model m)))"

definition train ::
  "('v, 'c) externals \<Rightarrow> ('k, 'v) trainer \<Rightarrow> estimator \<Rightarrow> error + 'v model trained" where
  "train E self e =
     (case fit_loop E e (u_training_data self) of
        Inl err \<Rightarrow> Inl err
      | Inr models \<Rightarrow> models_or_first models)"

text \<open>
  The eight training methods are that loop around one constructor call each. Keyword
  parameters are explicit arguments here; their defaults are applied where
  \<^verbatim>\<open>train_all\<close> binds keyword arguments.
\<close>

definition dummy ::
  "('v, 'c) externals \<Rightarrow> ('k, 'v) trainer \<Rightarrow> error + 'v model trained" where
  "dummy E self = train E self (DummyClassifier (seed self))"

definition logistic_regression ::
  "('v, 'c) externals \<Rightarrow> ('k, 'v) trainer \<Rightarrow> pyval \<Rightarrow> error + 'v model trained" where
  "logistic_regression E self c = train E self (LogisticRegression ''liblinear'' c (seed self))"

definition decision_tree ::
  "('v, 'c) externals \<Rightarrow> ('k, 'v) trainer \<Rightarrow> pyval \<Rightarrow> error + 'v model trained" where
  "decision_tree E self max_depth = train E self (DecisionTreeClassifier max_depth (seed self))"

definition k_nearest ::
  "('v, 'c) externals \<Rightarrow> ('k, 'v) trainer \<Rightarrow> pyval \<Rightarrow> error + 'v model trained" where
  "k_nearest E self k = train E self (KNeighborsClassifier k)"

definition linear_svm ::
  "('v, 'c) externals \<Rightarrow> ('k, 'v) trainer \<Rightarrow> pyval \<Rightarrow> error + 'v model trained" where
  "linear_svm E self c =
     train E self (Pipeline [(''scale'', StandardScaler), (''svm'', LinearSVC c False (seed self))])"

definition forest ::
  "('v, 'c) externals \<Rightarrow> ('k, 'v) trainer \<Rightarrow> pyval \<Rightarrow> error + 'v model trained" where
  "forest E self n_trees = train E self (RandomForestClassifier n_trees (seed self))"

definition bagging ::
  "('v, 'c) externals \<Rightarrow> ('k, 'v) trainer \<Rightarrow> pyval \<Rightarrow> error + 'v model trained" where
  "bagging E self n_estimators = train E self (BaggingClassifier n_estimators (seed self))"

definition boosting ::
  "('v, 'c) externals \<Rightarrow> ('k, 'v) trainer \<Rightarrow> pyval \<Rightarrow> error + 'v model trained" where
  "boosting E self n_estimators = train E self (AdaBoostClassifier n_estimators (seed self))"

text \<open>
  \<^verbatim>\<open>func(**params)\<close>: a keyword dictionary, as its items. A method without keyword
  parameters accepts the empty dictionary only; a method with one accepts that keyword or
  nothing (then the default applies); any other keyword is a \<^verbatim>\<open>TypeError\<close>.
\<close>

type_synonym kwargs = "(string \<times> pyval) list"

definition call0 :: "(error + 'r) \<Rightarrow> kwargs \<Rightarrow> error + 'r" where
  "call0 f params = (case params of [] \<Rightarrow> f | _ \<Rightarrow> Inl TypeError)"

definition call1 :: "string \<Rightarrow> pyval \<Rightarrow> (pyval \<Rightarrow> error + 'r) \<Rightarrow> kwargs \<Rightarrow> error + 'r" where
  "call1 kw dflt f params =
     (case params of
        [] \<Rightarrow> f dflt
      | [(k, v)] \<Rightarrow> if k = kw then f v else Inl TypeError
      | _ \<Rightarrow> Inl TypeError)"

text \<open>The dictionary \<^verbatim>\<open>methods\<close> of \<^verbatim>\<open>train_all\<close>, in insertion order.\<close>

definition methods ::
  "('v, 'c) externals \<Rightarrow> ('k, 'v) trainer \<Rightarrow>
   (string \<times> (kwargs \<Rightarrow> error + 'v model trained)) list" where
  "methods E self =
     [(''dummy'', call0 (dummy E self)),
      (''logistic_regression'', call1 ''c'' (PyInt 1) (logistic_regression E self)),
      (''decision_tree'', call1 ''max_depth'' PyNone (decision_tree E self)),
      (''k_nearest'', call1 ''k'' (PyInt 5) (k_nearest E self)),
      (''linear_svm'', call1 ''c'' (PyInt 1) (linear_svm E self)),
      (''forest'', call1 ''n_trees'' (PyInt 10) (forest E self)),
      (''bagging'', call1 ''n_estimators'' (PyInt 10) (bagging E self)),
      (''boosting'', call1 ''n_estimators'' (PyInt 10) (boosting E self))]"

text \<open>\<^verbatim>\<open>d[k] = v\<close> on a dictionary held as its items, in insertion order.\<close>

fun setitem :: "(string \<times> 'r) list \<Rightarrow> string \<Rightarrow> 'r \<Rightarrow> (string \<times> 'r) list" where
  "setitem [] k v = [(k, v)]"
| "setitem (p # ps) k v = (if fst p = k then (k, v) # ps else p # setitem ps k v)"

text \<open>
  The loop of \<^verbatim>\<open>train_all\<close>. The statement under \<^verbatim>\<open>if name in exclude:\<close> is the bare
  expression \<^verbatim>\<open>next\<close>, which names a builtin and does nothing (\<open>then_do\<close> runs such
  a statement and goes on); control then reaches the two assignments in either case.
  \<^verbatim>\<open>parameters.get(name) or {}\<close> is the keyword dictionary stored for the name, the empty
  one when there is none.
\<close>

definition next_builtin :: unit where
  "next_builtin = ()"

definition then_do :: "unit \<Rightarrow> 'a \<Rightarrow> 'a" where
  "then_do statement rest = rest"

fun train_all_loop ::
  "(string \<rightharpoonup> kwargs) \<Rightarrow> string list \<Rightarrow> (string \<times> (kwargs \<Rightarrow> error + 'r)) list \<Rightarrow>
   (string \<times> 'r) list \<Rightarrow> error + (string \<times> 'r) list" where
  "train_all_loop parameters exclude [] models = Inr models"
| "train_all_loop parameters exclude ((name, func) # rest) models =
     then_do (if name \<in> set exclude then next_builtin else ())
       (case func (case parameters name of None \<Rightarrow> [] | Some params \<Rightarrow> params) of
          Inl err \<Rightarrow> Inl err
        | Inr m \<Rightarrow> train_all_loop parameters exclude rest (setitem models name m))"

definition train_all ::
  "('v, 'c) externals \<Rightarrow> ('k, 'v) trainer \<Rightarrow> (string \<rightharpoonup> kwargs) \<Rightarrow> string list \<Rightarrow>
   error + (string \<times> 'v model trained) list" where
  "train_all E self parameters exclude = train_all_loop parameters exclude (methods E self) []"

section \<open>Tester\<close>

definition u_test_data ::
  "('k, 'v) tester \<Rightarrow> (error + 'v ndarray \<times> 'v ndarray) list" where
  "u_test_data self = map (features_and_label (label_colname self)) (dfs self)"

text \<open>Lines 210 to 214: the score of one model on one feature matrix.\<close>

definition y_score :: "'v model \<Rightarrow> 'v ndarray \<Rightarrow> error + 'v ndarray" where
  "y_score m X =
     (case is_svm_pipeline (estimator m) of
        Inl err \<Rightarrow> Inl err
      | Inr True \<Rightarrow> raised (decision_function m X)
      | Inr False \<Rightarrow>
          (case raised (predict_proba m X) of
             Inl err \<Rightarrow> Inl err
           | Inr p \<Rightarrow> column1 p))"

text \<open>Lines 210 to 221: the body of the loop of \<^verbatim>\<open>_test\<close>.\<close>

definition test_body ::
  "('v, 'c) externals \<Rightarrow> 'v model \<Rightarrow> 'v ndarray \<Rightarrow> 'v ndarray \<Rightarrow> error + 'v prediction_result" where
  "test_body E m X y_actual =
     (case y_score m X of
        Inl err \<Rightarrow> Inl err
      | Inr score \<Rightarrow>
          (case raised (predict m X) of
             Inl err \<Rightarrow> Inl err
           | Inr y_predict \<Rightarrow>
               (case DataFrame_float (to_float E)
                       [(''actual'', y_actual), (''score'', score), (''predict'', y_predict)] of
                  Inl err \<Rightarrow> Inl err
                | Inr df_results \<Rightarrow> Inr (PredictionResult df_results))))"

text \<open>
  \<^verbatim>\<open>for (X, y_actual), model in zip(self._test_data(), models)\<close>: \<^verbatim>\<open>zip\<close> resumes the
  generator first, then takes the next model, and stops when either is exhausted.
\<close>

fun test_loop ::
  "('v, 'c) externals \<Rightarrow> (error + 'v ndarray \<times> 'v ndarray) list \<Rightarrow> 'v model list \<Rightarrow>
   error + 'v prediction_result list" where
  "test_loop E [] models = Inr []"
| "test_loop E (Inl err # items) models = Inl err"
| "test_loop E (Inr xy # items) [] = Inr []"
| "test_loop E (Inr (X, y_actual) # items) (m # models) =
     (case test_body E m X y_actual of
        Inl err \<Rightarrow> Inl err
      | Inr r \<Rightarrow>
          (case test_loop E items models of
             Inl err \<Rightarrow> Inl err
           | Inr rs \<Rightarrow> Inr (r # rs)))"

text \<open>\<^verbatim>\<open>[r.with_threshold(threshold) for r in results]\<close>\<close>

fun with_threshold_each ::
  "('v, 'c) externals \<Rightarrow> pyval \<Rightarrow> 'v prediction_result list \<Rightarrow> error + 'v prediction_result list" where
  "with_threshold_each E threshold [] = Inr []"
| "with_threshold_each E threshold (r # rs) =
     (case raised (with_threshold E threshold r) of
        Inl err \<Rightarrow> Inl err
      | Inr r' \<Rightarrow>
          (case with_threshold_each E threshold rs of
             Inl err \<Rightarrow> Inl err
           | Inr rs' \<Rightarrow> Inr (r' # rs')))"

text \<open>\<^verbatim>\<open>Tester._test(self, *models, threshold=None)\<close>\<close>

definition u_test ::
  "('v, 'c) externals \<Rightarrow> ('k, 'v) tester \<Rightarrow> 'v model list \<Rightarrow> pyval \<Rightarrow>
   error + 'v prediction_result list" where
  "u_test E self models threshold =
     (if length models \<noteq> length (dfs self)
      then Inl (CountMismatch (length models) (length (dfs self)))
      else (case test_loop E (u_test_data self) models of
              Inl err \<Rightarrow> Inl err
            | Inr results \<Rightarrow>
                if truthy threshold then with_threshold_each E threshold results
                else Inr results))"

text \<open>
  \<^verbatim>\<open>Tester.test(self, *models, threshold=None)\<close>: a stacked collection of several results,
  or the one result.
\<close>

definition test ::
  "('v, 'c) externals \<Rightarrow> ('k, 'v) tester \<Rightarrow> 'v model list \<Rightarrow> pyval \<Rightarrow>
   error + ('v prediction_result + 'c)" where
  "test E self models threshold =
     (case u_test E self models PyNone of
        Inl err \<Rightarrow> Inl err
      | Inr results \<Rightarrow>
          if 1 < length results
          then (case raised (from_stack E results None) of
                  Inl err \<Rightarrow> Inl err
                | Inr c \<Rightarrow> Inr (Inr c))
          else (case results of [] \<Rightarrow> Inl IndexError | r # _ \<Rightarrow> Inr (Inl r)))"

text \<open>
  \<^verbatim>\<open>Tester.evaluate(self, model_dict, thresholds=None)\<close>; \<^verbatim>\<open>if thresholds:\<close> holds for a
  non-empty list.
\<close>

fun evaluate_loop ::
  "('v, 'c) externals \<Rightarrow> ('k, 'v) tester \<Rightarrow> pyval list option \<Rightarrow> (string \<times> 'v model) list \<Rightarrow> 'c \<Rightarrow>
   error + 'c" where
  "evaluate_loop E self thresholds [] collection = Inr collection"
| "evaluate_loop E self thresholds ((name, m) # rest) collection =
     (case u_test E self [m] PyNone of
        Inl err \<Rightarrow> Inl err
      | Inr [] \<Rightarrow> Inl IndexError
      | Inr (result # _) \<Rightarrow>
          (case (case thresholds of
                   Some (th # ths) \<Rightarrow>
                     (case raised (with_thresholds E (th # ths) result) of
                        Inl err \<Rightarrow> Inl err
                      | Inr results \<Rightarrow>
                          (case raised (from_stack E results (Some (th # ths))) of
                             Inl err \<Rightarrow> Inl err
                           | Inr this_collection \<Rightarrow>
                               raised (join E collection name (Inr this_collection))))
                 | _ \<Rightarrow> raised (join E collection name (Inl result))) of
             Inl err \<Rightarrow> Inl err
           | Inr collection' \<Rightarrow> evaluate_loop E self thresholds rest collection'))"

definition evaluate ::
  "('v, 'c) externals \<Rightarrow> ('k, 'v) tester \<Rightarrow> (string \<times> 'v model) list \<Rightarrow> pyval list option \<Rightarrow>
   error + 'c" where
  "evaluate E self model_dict thresholds =
     evaluate_loop E self thresholds model_dict (new_collection E)"

text \<open>\<^verbatim>\<open>Tester.evaluate_splits(self, model_dict, threshold=None)\<close>\<close>

fun evaluate_splits_loop ::
  "('v, 'c) externals \<Rightarrow> ('k, 'v) tester \<Rightarrow> pyval \<Rightarrow> (string \<times> 'v model list) list \<Rightarrow> 'c \<Rightarrow>
   error + 'c" where
  "evaluate_splits_loop E self threshold [] collection = Inr collection"
| "evaluate_splits_loop E self threshold ((name, models) # rest) collection =
     (case u_test E self models threshold of
        Inl err \<Rightarrow> Inl err
      | Inr results \<Rightarrow>
          (case raised (from_stack E results None) of
             Inl err \<Rightarrow> Inl err
           | Inr this_collection \<Rightarrow>
               (case raised (join E collection name (Inr this_collection)) of
                  Inl err \<Rightarrow> Inl err
                | Inr collection' \<Rightarrow> evaluate_splits_loop E self threshold rest collection')))"

definition evaluate_splits ::
  "('v, 'c) externals \<Rightarrow> ('k, 'v) tester \<Rightarrow> (string \<times> 'v model list) list \<Rightarrow> pyval \<Rightarrow>
   error + 'c" where
  "evaluate_splits E self model_dict threshold =
     evaluate_splits_loop E self threshold model_dict (new_collection E)"

section \<open>The datasets as objects in a store\<close>

text \<open>
  The classes hold references to frames of their caller, and every call out of the module
  (fitting, the methods of a model, the result module) receives arrays that may share memory
  with those frames. To state what happens to the caller's frames, the operations are given
  a second time over a store of frame objects: \<^verbatim>\<open>self.dfs\<close> is a list of addresses, the
  module's own pandas operations read the frame at an address, and every opaque call is an
  arbitrary transformer of the store.
\<close>

type_synonym ('k, 'v) store = "nat \<Rightarrow> ('k, 'v) dataframe"

type_synonym ('k, 'v, 'a) eff = "('k, 'v) store \<Rightarrow> (error + 'a) \<times> ('k, 'v) store"

definition return_st :: "'a \<Rightarrow> ('k, 'v, 'a) eff" where
  "return_st x s = (Inr x, s)"

definition pure_st :: "error + 'a \<Rightarrow> ('k, 'v, 'a) eff" where
  "pure_st r s = (r, s)"

definition opaque_st ::
  "(('k, 'v) store \<Rightarrow> (string + 'a) \<times> ('k, 'v) store) \<Rightarrow> ('k, 'v, 'a) eff" where
  "opaque_st f s = (case f s of (r, s') \<Rightarrow> (raised r, s'))"

definition bind_st :: "('k, 'v, 'a) eff \<Rightarrow> ('a \<Rightarrow> ('k, 'v, 'b) eff) \<Rightarrow> ('k, 'v, 'b) eff" where
  "bind_st f g s = (case f s of (Inl err, s') \<Rightarrow> (Inl err, s') | (Inr x, s') \<Rightarrow> g x s')"

record ('k, 'v) fitted_st =
  decision_function_st :: "'v ndarray \<Rightarrow> ('k, 'v) store \<Rightarrow> (string + 'v ndarray) \<times> ('k, 'v) store"
  predict_proba_st :: "'v ndarray \<Rightarrow> ('k, 'v) store \<Rightarrow> (string + 'v ndarray) \<times> ('k, 'v) store"
  predict_st :: "'v ndarray \<Rightarrow> ('k, 'v) store \<Rightarrow> (string + 'v ndarray) \<times> ('k, 'v) store"

record ('k, 'v) model_st = "('k, 'v) fitted_st" +
  estimator_st :: estimator

record ('k, 'v, 'c) externals_st =
  to_float_st :: "'v \<Rightarrow> 'v option"
  sk_fit_st ::
    "estimator \<Rightarrow> 'v ndarray \<Rightarrow> 'v ndarray \<Rightarrow> ('k, 'v) store \<Rightarrow>
     (string + ('k, 'v) fitted_st) \<times> ('k, 'v) store"
  with_threshold_st ::
    "pyval \<Rightarrow> 'v prediction_result \<Rightarrow> ('k, 'v) store \<Rightarrow>
     (string + 'v prediction_result) \<times> ('k, 'v) store"
  with_thresholds_st ::
    "pyval list \<Rightarrow> 'v prediction_result \<Rightarrow> ('k, 'v) store \<Rightarrow>
     (string + 'v prediction_result list) \<times> ('k, 'v) store"
  new_collection_st :: 'c
  from_stack_st ::
    "'v prediction_result list \<Rightarrow> pyval list option \<Rightarrow> ('k, 'v) store \<Rightarrow>
     (string + 'c) \<times> ('k, 'v) store"
  join_st ::
    "'c \<Rightarrow> string \<Rightarrow> 'v prediction_result + 'c \<Rightarrow> ('k, 'v) store \<Rightarrow>
     (string + 'c) \<times> ('k, 'v) store"

text \<open>A trainer or tester object: the addresses of its frames, its label, its seed.\<close>

record 'k self_st =
  dfs_st :: "nat list"
  label_colname_st :: 'k
  seed_st :: pyval

text \<open>
  One resumption of \<^verbatim>\<open>_training_data\<close> or \<^verbatim>\<open>_test_data\<close> at the frame at address \<open>a\<close>.
  \<^verbatim>\<open>df.drop(columns=[label])\<close> is called without \<^verbatim>\<open>inplace\<close> and returns a new frame;
  indexing and \<^verbatim>\<open>.values\<close> read. The step is the function \<open>features_and_label\<close> of
  the frame as it is in the store at that moment, and leaves the store as it is.
\<close>

definition features_and_label_st ::
  "'k \<Rightarrow> nat \<Rightarrow> ('k, 'v, 'v ndarray \<times> 'v ndarray) eff" where
  "features_and_label_st k a s = (features_and_label k (s a), s)"

definition fit_model_st ::
  "('k, 'v, 'c) externals_st \<Rightarrow> estimator \<Rightarrow> 'v ndarray \<Rightarrow> 'v ndarray \<Rightarrow>
   ('k, 'v, ('k, 'v) model_st) eff" where
  "fit_model_st E e X y =
     bind_st (opaque_st (sk_fit_st E e X y))
       (\<lambda>f. return_st
          \<lparr>decision_function_st = decision_function_st f,
           predict_proba_st = predict_proba_st f,
           predict_st = predict_st f, estimator_st = e\<rparr>)"

fun fit_loop_st ::
  "('k, 'v, 'c) externals_st \<Rightarrow> estimator \<Rightarrow> 'k \<Rightarrow> nat list \<Rightarrow>
   ('k, 'v, ('k, 'v) model_st list) eff" where
  "fit_loop_st E e k [] = return_st []"
| "fit_loop_st E e k (a # refs) =
     bind_st (features_and_label_st k a)
       (\<lambda>(X, y). bind_st (fit_model_st E e X y)
          (\<lambda>m. bind_st (fit_loop_st E e k refs)
             (\<lambda>ms. return_st (m # ms))))"

definition train_st ::
  "('k, 'v, 'c) externals_st \<Rightarrow> 'k self_st \<Rightarrow> estimator \<Rightarrow>
   ('k, 'v, ('k, 'v) model_st trained) eff" where
  "train_st E self e =
     bind_st (fit_loop_st E e (label_colname_st self) (dfs_st self))
       (\<lambda>models. pure_st (models_or_first models))"

definition dummy_st ::
  "('k, 'v, 'c) externals_st \<Rightarrow> 'k self_st \<Rightarrow> ('k, 'v, ('k, 'v) model_st trained) eff" where
  "dummy_st E self = train_st E self (DummyClassifier (seed_st self))"

definition logistic_regression_st ::
  "('k, 'v, 'c) externals_st \<Rightarrow> 'k self_st \<Rightarrow> pyval \<Rightarrow>
   ('k, 'v, ('k, 'v) model_st trained) eff" where
  "logistic_regression_st E self c =
     train_st E self (LogisticRegression ''liblinear'' c (seed_st self))"

definition decision_tree_st ::
  "('k, 'v, 'c) externals_st \<Rightarrow> 'k self_st \<Rightarrow> pyval \<Rightarrow>
   ('k, 'v, ('k, 'v) model_st trained) eff" where
  "decision_tree_st E self max_depth =
     train_st E self (DecisionTreeClassifier max_depth (seed_st self))"

definition k_nearest_st ::
  "('k, 'v, 'c) externals_st \<Rightarrow> 'k self_st \<Rightarrow> pyval \<Rightarrow>
   ('k, 'v, ('k, 'v) model_st trained) eff" where
  "k_nearest_st E self k = train_st E self (KNeighborsClassifier k)"

definition linear_svm_st ::
  "('k, 'v, 'c) externals_st \<Rightarrow> 'k self_st \<Rightarrow> pyval \<Rightarrow>
   ('k, 'v, ('k, 'v) model_st trained) eff" where
  "linear_svm_st E self c =
     train_st E self
       (Pipeline [(''scale'', StandardScaler), (''svm'', LinearSVC c False (seed_st self))])"

definition forest_st ::
  "('k, 'v, 'c) externals_st \<Rightarrow> 'k self_st \<Rightarrow> pyval \<Rightarrow>
   ('k, 'v, ('k, 'v) model_st trained) eff" where
  "forest_st E self n_trees = train_st E self (RandomForestClassifier n_trees (seed_st self))"

definition bagging_st ::
  "('k, 'v, 'c) externals_st \<Rightarrow> 'k self_st \<Rightarrow> pyval \<Rightarrow>
   ('k, 'v, ('k, 'v) model_st trained) eff" where
  "bagging_st E self n_estimators =
     train_st E self (BaggingClassifier n_estimators (seed_st self))"

definition boosting_st ::
  "('k, 'v, 'c) externals_st \<Rightarrow> 'k self_st \<Rightarrow> pyval \<Rightarrow>
   ('k, 'v, ('k, 'v) model_st trained) eff" where
  "boosting_st E self n_estimators =
     train_st E self (AdaBoostClassifier n_estimators (seed_st self))"

definition call0_st :: "('k, 'v, 'r) eff \<Rightarrow> kwargs \<Rightarrow> ('k, 'v, 'r) eff" where
  "call0_st f params = (case params of [] \<Rightarrow> f | _ \<Rightarrow> pure_st (Inl TypeError))"

definition call1_st ::
  "string \<Rightarrow> pyval \<Rightarrow> (pyval \<Rightarrow> ('k, 'v, 'r) eff) \<Rightarrow> kwargs \<Rightarrow> ('k, 'v, 'r) eff" where
  "call1_st kw dflt f params =
     (case params of
        [] \<Rightarrow> f dflt
      | [(k, v)] \<Rightarrow> if k = kw then f v else pure_st (Inl TypeError)
      | _ \<Rightarrow> pure_st (Inl TypeError))"

definition methods_st ::
  "('k, 'v, 'c) externals_st \<Rightarrow> 'k self_st \<Rightarrow>
   (string \<times> (kwargs \<Rightarrow> ('k, 'v, ('k, 'v) model_st trained) eff)) list" where
  "methods_st E self =
     [(''dummy'', call0_st (dummy_st E self)),
      (''logistic_regression'', call1_st ''c'' (PyInt 1) (logistic_regression_st E self)),
      (''decision_tree'', call1_st ''max_depth'' PyNone (decision_tree_st E self)),
      (''k_nearest'', call1_st ''k'' (PyInt 5) (k_nearest_st E self)),
      (''linear_svm'', call1_st ''c'' (PyInt 1) (linear_svm_st E self)),
      (''forest'', call1_st ''n_trees'' (PyInt 10) (forest_st E self)),
      (''bagging'', call1_st ''n_estimators'' (PyInt 10) (bagging_st E self)),
      (''boosting'', call1_st ''n_estimators'' (PyInt 10) (boosting_st E self))]"

fun train_all_loop_st ::
  "(string \<rightharpoonup> kwargs) \<Rightarrow> string list \<Rightarrow> (string \<times> (kwargs \<Rightarrow> ('k, 'v, 'r) eff)) list \<Rightarrow>
   (string \<times> 'r) list \<Rightarrow> ('k, 'v, (string \<times> 'r) list) eff" where
  "train_all_loop_st parameters exclude [] models = return_st models"
| "train_all_loop_st parameters exclude ((name, func) # rest) models =
     then_do (if name \<in> set exclude then next_builtin else ())
       (bind_st (func (case parameters name of None \<Rightarrow> [] | Some params \<Rightarrow> params))
          (\<lambda>m. train_all_loop_st parameters exclude rest (setitem models name m)))"

definition train_all_st ::
  "('k, 'v, 'c) externals_st \<Rightarrow> 'k self_st \<Rightarrow> (string \<rightharpoonup> kwargs) \<Rightarrow> string list \<Rightarrow>
   ('k, 'v, (string \<times> ('k, 'v) model_st trained) list) eff" where
  "train_all_st E self parameters exclude =
     train_all_loop_st parameters exclude (methods_st E self) []"

definition y_score_st :: "('k, 'v) model_st \<Rightarrow> 'v ndarray \<Rightarrow> ('k, 'v, 'v ndarray) eff" where
  "y_score_st m X =
     bind_st (pure_st (is_svm_pipeline (estimator_st m)))
       (\<lambda>svm. if svm then opaque_st (decision_function_st m X)
               else bind_st (opaque_st (predict_proba_st m X)) (\<lambda>p. pure_st (column1 p)))"

definition test_body_st ::
  "('k, 'v, 'c) externals_st \<Rightarrow> ('k, 'v) model_st \<Rightarrow> 'v ndarray \<Rightarrow> 'v ndarray \<Rightarrow>
   ('k, 'v, 'v prediction_result) eff" where
  "test_body_st E m X y_actual =
     bind_st (y_score_st m X)
       (\<lambda>score. bind_st (opaque_st (predict_st m X))
          (\<lambda>y_predict.
             bind_st (pure_st (DataFrame_float (to_float_st E)
                        [(''actual'', y_actual), (''score'', score), (''predict'', y_predict)]))
               (\<lambda>df_results. return_st (PredictionResult df_results))))"

fun test_loop_st ::
  "('k, 'v, 'c) externals_st \<Rightarrow> 'k \<Rightarrow> nat list \<Rightarrow> ('k, 'v) model_st list \<Rightarrow>
   ('k, 'v, 'v prediction_result list) eff" where
  "test_loop_st E k [] models = return_st []"
| "test_loop_st E k (a # refs) models =
     bind_st (features_and_label_st k a)
       (\<lambda>(X, y_actual).
          (case models of
             [] \<Rightarrow> return_st []
           | m # models' \<Rightarrow>
               bind_st (test_body_st E m X y_actual)
                 (\<lambda>r. bind_st (test_loop_st E k refs models')
                    (\<lambda>rs. return_st (r # rs)))))"

fun with_threshold_each_st ::
  "('k, 'v, 'c) externals_st \<Rightarrow> pyval \<Rightarrow> 'v prediction_result list \<Rightarrow>
   ('k, 'v, 'v prediction_result list) eff" where
  "with_threshold_each_st E threshold [] = return_st []"
| "with_threshold_each_st E threshold (r # rs) =
     bind_st (opaque_st (with_threshold_st E threshold r))
       (\<lambda>r'. bind_st (with_threshold_each_st E threshold rs)
          (\<lambda>rs'. return_st (r' # rs')))"

definition u_test_st ::
  "('k, 'v, 'c) externals_st \<Rightarrow> 'k self_st \<Rightarrow> ('k, 'v) model_st list \<Rightarrow> pyval \<Rightarrow>
   ('k, 'v, 'v prediction_result list) eff" where
  "u_test_st E self models threshold =
     (if length models \<noteq> length (dfs_st self)
      then pure_st (Inl (CountMismatch (length models) (length (dfs_st self))))
      else bind_st (test_loop_st E (label_colname_st self) (dfs_st self) models)
             (\<lambda>results. if truthy threshold then with_threshold_each_st E threshold results
                         else return_st results))"

definition test_st ::
  "('k, 'v, 'c) externals_st \<Rightarrow> 'k self_st \<Rightarrow> ('k, 'v) model_st list \<Rightarrow> pyval \<Rightarrow>
   ('k, 'v, 'v prediction_result + 'c) eff" where
  "test_st E self models threshold =
     bind_st (u_test_st E self models PyNone)
       (\<lambda>results.
          if 1 < length results
          then bind_st (opaque_st (from_stack_st E results None)) (\<lambda>c. return_st (Inr c))
          else (case results of [] \<Rightarrow> pure_st (Inl IndexError) | r # _ \<Rightarrow> return_st (Inl r)))"

fun evaluate_loop_st ::
  "('k, 'v, 'c) externals_st \<Rightarrow> 'k self_st \<Rightarrow> pyval list option \<Rightarrow>
   (string \<times> ('k, 'v) model_st) list \<Rightarrow> 'c \<Rightarrow> ('k, 'v, 'c) eff" where
  "evaluate_loop_st E self thresholds [] collection = return_st collection"
| "evaluate_loop_st E self thresholds ((name, m) # rest) collection =
     bind_st (u_test_st E self [m] PyNone)
       (\<lambda>rs. case rs of
          [] \<Rightarrow> pure_st (Inl IndexError)
        | result # _ \<Rightarrow>
            bind_st
              (case thresholds of
                 Some (th # ths) \<Rightarrow>
                   bind_st (opaque_st (with_thresholds_st E (th # ths) result))
                     (\<lambda>results. bind_st (opaque_st (from_stack_st E results (Some (th # ths))))
                        (\<lambda>this_collection.
                           opaque_st (join_st E collection name (Inr this_collection))))
               | _ \<Rightarrow> opaque_st (join_st E collection name (Inl result)))
              (\<lambda>collection'. evaluate_loop_st E self thresholds rest collection'))"

definition evaluate_st ::
  "('k, 'v, 'c) externals_st \<Rightarrow> 'k self_st \<Rightarrow> (string \<times> ('k, 'v) model_st) list \<Rightarrow>
   pyval list option \<Rightarrow> ('k, 'v, 'c) eff" where
  "evaluate_st E self model_dict thresholds =
     evaluate_loop_st E self thresholds model_dict (new_collection_st E)"

fun evaluate_splits_loop_st ::
  "('k, 'v, 'c) externals_st \<Rightarrow> 'k self_st \<Rightarrow> pyval \<Rightarrow>
   (string \<times> ('k, 'v) model_st list) list \<Rightarrow> 'c \<Rightarrow> ('k, 'v, 'c) eff" where
  "evaluate_splits_loop_st E self threshold [] collection = return_st collection"
| "evaluate_splits_loop_st E self threshold ((name, models) # rest) collection =
     bind_st (u_test_st E self models threshold)
       (\<lambda>results. bind_st (opaque_st (from_stack_st E results None))
          (\<lambda>this_collection.
             bind_st (opaque_st (join_st E collection name (Inr this_collection)))
               (\<lambda>collection'. evaluate_splits_loop_st E self threshold rest collection')))"

definition evaluate_splits_st ::
  "('k, 'v, 'c) externals_st \<Rightarrow> 'k self_st \<Rightarrow> (string \<times> ('k, 'v) model_st list) list \<Rightarrow>
   pyval \<Rightarrow> ('k, 'v, 'c) eff" where
  "evaluate_splits_st E self model_dict threshold =
     evaluate_splits_loop_st E self threshold model_dict (new_collection_st E)"

section \<open>Properties stated by the specification\<close>

text \<open>The module's own exception, whatever the counts it reports.\<close>

fun is_count_mismatch :: "error \<Rightarrow> bool" where
  "is_count_mismatch (CountMismatch m d) = True"
| "is_count_mismatch _ = False"

text \<open>
  A result table of \<open>n\<close> rows: exactly the columns \<^verbatim>\<open>actual\<close>, \<^verbatim>\<open>score\<close> and
  \<^verbatim>\<open>predict\<close>, an index of \<open>n\<close> entries, and \<open>n\<close> cells in every column.
\<close>

definition result_shape :: "nat \<Rightarrow> 'v prediction_result \<Rightarrow> bool" where
  "result_shape n r =
     (map fst (cols (table r)) = [''actual'', ''score'', ''predict''] \<and>
      nrows (table r) = n \<and>
      list_all (\<lambda>c. length (snd c) = n) (cols (table r)))"

text \<open>
  The particular wrapped classifier: a pipeline whose step named \<^verbatim>\<open>svm\<close> is a linear
  support vector classifier.
\<close>

definition wrapped_classifier :: "estimator \<Rightarrow> bool" where
  "wrapped_classifier e =
     (case e of
        Pipeline steps \<Rightarrow>
          (case map_of (rev steps) ''svm'' of
             Some (LinearSVC c d s) \<Rightarrow> True
           | _ \<Rightarrow> False)
      | _ \<Rightarrow> False)"

text \<open>
  Where the score of model \<open>m\<close> on the feature matrix \<open>X\<close> comes from, as the claim has it:
  the decision function of the wrapped classifier, the second column (the positive class)
  of the probabilities of any other model.
\<close>

definition score_source :: "'v model \<Rightarrow> 'v ndarray \<Rightarrow> 'v list \<Rightarrow> bool" where
  "score_source m X s =
     (if wrapped_classifier (estimator m) then decision_function m X = Inr (Vec s)
      else (case predict_proba m X of
              Inr (Mat n cs) \<Rightarrow> 1 < length cs \<and> cs ! 1 = s
            | _ \<Rightarrow> False))"

text \<open>The number of fitted models a training method returned.\<close>

fun num_models :: "'m trained \<Rightarrow> nat" where
  "num_models (Models ms) = length ms"
| "num_models (Model m) = 1"

text \<open>
  The feature matrix of a frame for the label \<open>k\<close>: the data of every column not labelled
  \<open>k\<close>, in order, over the rows of the frame. The label array: the data of the column
  labelled \<open>k\<close> (of all of them, as a matrix, should the label repeat).
\<close>

definition feature_matrix :: "'k \<Rightarrow> ('k, 'v) dataframe \<Rightarrow> 'v ndarray" where
  "feature_matrix k df = Mat (nrows df) (map snd (filter (\<lambda>c. fst c \<noteq> k) (cols df)))"

definition label_array :: "'k \<Rightarrow> ('k, 'v) dataframe \<Rightarrow> 'v ndarray" where
  "label_array k df =
     (case map snd (filter (\<lambda>c. fst c = k) (cols df)) of
        [ys] \<Rightarrow> Vec ys
      | yss \<Rightarrow> Mat (nrows df) yss)"

text \<open>The models a training method returned, as a list.\<close>

fun models_of :: "'m trained \<Rightarrow> 'm list" where
  "models_of (Models ms) = ms"
| "models_of (Model m) = [m]"

text \<open>
  What the library is handed. \<open>fitted_by E e X y m\<close>: scikit-learn's fitting of the
  estimator \<open>e\<close> was called on the features \<open>X\<close> and the labels \<open>y\<close>, and \<open>m\<close> is that
  estimator with what the call learned. \<open>tested_on E m X y r\<close>: the table of \<open>r\<close> has the
  array \<open>y\<close> as its \<^verbatim>\<open>actual\<close> column, the score the model's method gives on \<open>X\<close> as
  its \<^verbatim>\<open>score\<close> column and what the model's \<^verbatim>\<open>predict\<close> gives on \<open>X\<close> as its
  \<^verbatim>\<open>predict\<close> column, each converted to floats.
\<close>

definition fitted_by ::
  "('v, 'c) externals \<Rightarrow> estimator \<Rightarrow> 'v ndarray \<Rightarrow> 'v ndarray \<Rightarrow> 'v model \<Rightarrow> bool" where
  "fitted_by E e X y m =
     (case sk_fit E e X y of
        Inl msg \<Rightarrow> False
      | Inr f \<Rightarrow>
          m = \<lparr>decision_function = decision_function f, predict_proba = predict_proba f,
               predict = predict f, estimator = e\<rparr>)"

definition tested_on ::
  "('v, 'c) externals \<Rightarrow> 'v model \<Rightarrow> 'v ndarray \<Rightarrow> 'v ndarray \<Rightarrow> 'v prediction_result \<Rightarrow> bool" where
  "tested_on E m X y r =
     (\<exists>a s p fa fs fp.
        y = Vec a \<and> score_source m X s \<and> predict m X = Inr (Vec p) \<and>
        those (map (to_float E) a) = Some fa \<and>
        those (map (to_float E) s) = Some fs \<and>
        those (map (to_float E) p) = Some fp \<and>
        table r =
          \<lparr>nrows = length a, cols = [(''actual'', fa), (''score'', fs), (''predict'', fp)]\<rparr>)"


text \<open>
  A step leaves the objects at the addresses \<open>A\<close> unchanged: whatever the store it starts
  from, the store it ends in has the same frame at every address of \<open>A\<close>.
\<close>

definition unchanged_on ::
  "nat set \<Rightarrow> (('k, 'v) store \<Rightarrow> 'r \<times> ('k, 'v) store) \<Rightarrow> bool" where
  "unchanged_on A f = (\<forall>s. \<forall>a \<in> A. snd (f s) a = s a)"

text \<open>
  The assumption on what the module calls and does not define: fitting, the result module
  and the methods of a model do not write to the frames at \<open>A\<close>.
\<close>

definition externals_keep :: "nat set \<Rightarrow> ('k, 'v, 'c) externals_st \<Rightarrow> bool" where
  "externals_keep A E =
     ((\<forall>e X y. unchanged_on A (sk_fit_st E e X y)) \<and>
      (\<forall>t r. unchanged_on A (with_threshold_st E t r)) \<and>
      (\<forall>ts r. unchanged_on A (with_thresholds_st E ts r)) \<and>
      (\<forall>rs index. unchanged_on A (from_stack_st E rs index)) \<and>
      (\<forall>c name x. unchanged_on A (join_st E c name x)))"

definition model_keeps :: "nat set \<Rightarrow> ('k, 'v) model_st \<Rightarrow> bool" where
  "model_keeps A m =
     ((\<forall>X. unchanged_on A (decision_function_st m X)) \<and>
      (\<forall>X. unchanged_on A (predict_proba_st m X)) \<and>
      (\<forall>X. unchanged_on A (predict_st m X)))"

section \<open>A worked example\<close>

text \<open>
  One frame of two rows with a feature column and a label column; a fitted model whose
  methods compute from the one feature column they are given (and raise on anything else);
  stand-ins for the opaque collaborators. The stand-in for fitting wants one feature column
  and a label vector of the same length; the stand-in for \<^verbatim>\<open>with_threshold\<close> predicts 1
  where the score reaches the threshold and 0 elsewhere.
\<close>

definition ex_frame :: "(string, real) dataframe" where
  "ex_frame = \<lparr>nrows = 2, cols = [(''age'', [30, 40]), (''label'', [0, 1])]\<rparr>"

definition ex_fitted :: "real fitted" where
  "ex_fitted =
     \<lparr>decision_function =
        (\<lambda>X. case X of
                Mat n [ages] \<Rightarrow> Inr (Vec (map (\<lambda>x. (3 * x - 100) / 10) ages))
              | _ \<Rightarrow> Inl ''expected one feature''),
      predict_proba =
        (\<lambda>X. case X of
                Mat n [ages] \<Rightarrow>
                  Inr (Mat n [map (\<lambda>x. (480 - 11 * x) / 200) ages,
                              map (\<lambda>x. (11 * x - 280) / 200) ages])
              | _ \<Rightarrow> Inl ''expected one feature''),
      predict =
        (\<lambda>X. case X of
                Mat n [ages] \<Rightarrow> Inr (Vec (map (\<lambda>x. if 35 \<le> x then 1 else 0) ages))
              | _ \<Rightarrow> Inl ''expected one feature'')\<rparr>"

definition ex_model :: "real model" where
  "ex_model =
     \<lparr>decision_function = decision_function ex_fitted, predict_proba = predict_proba ex_fitted,
      predict = predict ex_fitted, estimator = DummyClassifier PyNone\<rparr>"

definition ex_svm_model :: "real model" where
  "ex_svm_model =
     ex_model\<lparr>estimator := Pipeline [(''scale'', StandardScaler), (''svm'', LinearSVC (PyInt 1) False PyNone)]\<rparr>"

text \<open>The same fitted methods in a pipeline that has no step named \<^verbatim>\<open>svm\<close>.\<close>

definition ex_plain_pipeline :: "real model" where
  "ex_plain_pipeline =
     ex_model\<lparr>estimator :=
       Pipeline [(''scale'', StandardScaler),
                 (''clf'', LogisticRegression ''liblinear'' (PyInt 1) PyNone)]\<rparr>"

fun pyval_real :: "pyval \<Rightarrow> real" where
  "pyval_real PyNone = 0"
| "pyval_real (PyInt n) = of_int n"
| "pyval_real (PyFloat x) = x"

definition ex_with_threshold ::
  "pyval \<Rightarrow> real prediction_result \<Rightarrow> string + real prediction_result" where
  "ex_with_threshold t r =
     (case map_of (cols (table r)) ''score'' of
        None \<Rightarrow> Inl ''no score''
      | Some s \<Rightarrow>
          Inr (PredictionResult
                ((table r)\<lparr>cols :=
                   map (\<lambda>c. if fst c = ''predict''
                             then (''predict'', map (\<lambda>x. if pyval_real t \<le> x then 1 else 0) s)
                             else c)
                     (cols (table r))\<rparr>)))"

definition ex_externals :: "(real, string list) externals" where
  "ex_externals =
     \<lparr>to_float = Some,
      sk_fit =
        (\<lambda>e X y. case (X, y) of
                    (Mat n [ages], Vec labels) \<Rightarrow>
                      if length ages = n \<and> length labels = n then Inr ex_fitted
                      else Inl ''lengths differ''
                  | _ \<Rightarrow> Inl ''expected one feature and a label vector''),
      with_threshold = ex_with_threshold,
      with_thresholds = (\<lambda>ts r. Inr (map (\<lambda>t. r) ts)),
      new_collection = [],
      from_stack = (\<lambda>rs index. Inr []),
      join = (\<lambda>c name x. Inr (c @ [name]))\<rparr>"

definition ex_tester :: "(string, real) tester" where
  "ex_tester = \<lparr>dfs = [ex_frame], label_colname = ''label''\<rparr>"

definition ex_tester2 :: "(string, real) tester" where
  "ex_tester2 = \<lparr>dfs = [ex_frame, ex_frame], label_colname = ''label''\<rparr>"

definition ex_trainer :: "(string, real) trainer" where
  "ex_trainer = \<lparr>dfs = [ex_frame, ex_frame], label_colname = ''label'', seed = PyInt 7\<rparr>"

text \<open>What \<^verbatim>\<open>train_all\<close> returns on the example trainer.\<close>

definition ex_trained :: "(string \<times> real model trained) list" where
  "ex_trained =
     map (\<lambda>(name, e). (name, Models [ex_model\<lparr>estimator := e\<rparr>, ex_model\<lparr>estimator := e\<rparr>]))
       [(''dummy'', DummyClassifier (PyInt 7)),
        (''logistic_regression'', LogisticRegression ''liblinear'' (PyInt 1) (PyInt 7)),
        (''decision_tree'', DecisionTreeClassifier (PyInt 3) (PyInt 7)),
        (''k_nearest'', KNeighborsClassifier (PyInt 5)),
        (''linear_svm'', Pipeline [(''scale'', StandardScaler), (''svm'', LinearSVC (PyInt 1) False (PyInt 7))]),
        (''forest'', RandomForestClassifier (PyInt 10) (PyInt 7)),
        (''bagging'', BaggingClassifier (PyInt 10) (PyInt 7)),
        (''boosting'', AdaBoostClassifier (PyInt 10) (PyInt 7))]"

text \<open>
  Collaborators without effect on the store, from their pure counterparts; and the example
  as objects: two addresses holding the example frame.
\<close>

definition lift_fitted :: "'v fitted \<Rightarrow> ('k, 'v) fitted_st" where
  "lift_fitted f =
     \<lparr>decision_function_st = (\<lambda>X s. (decision_function f X, s)),
      predict_proba_st = (\<lambda>X s. (predict_proba f X, s)),
      predict_st = (\<lambda>X s. (predict f X, s))\<rparr>"

definition lift_model :: "'v model \<Rightarrow> ('k, 'v) model_st" where
  "lift_model m =
     \<lparr>decision_function_st = (\<lambda>X s. (decision_function m X, s)),
      predict_proba_st = (\<lambda>X s. (predict_proba m X, s)),
      predict_st = (\<lambda>X s. (predict m X, s)),
      estimator_st = estimator m\<rparr>"

definition lift_externals :: "('v, 'c) externals \<Rightarrow> ('k, 'v, 'c) externals_st" where
  "lift_externals E =
     \<lparr>to_float_st = to_float E,
      sk_fit_st = (\<lambda>e X y s. (map_sum id lift_fitted (sk_fit E e X y), s)),
      with_threshold_st = (\<lambda>t r s. (with_threshold E t r, s)),
      with_thresholds_st = (\<lambda>ts r s. (with_thresholds E ts r, s)),
      new_collection_st = new_collection E,
      from_stack_st = (\<lambda>rs index s. (from_stack E rs index, s)),
      join_st = (\<lambda>c name x s. (join E c name x, s))\<rparr>"

definition ex_store :: "(string, real) store" where
  "ex_store = (\<lambda>a. ex_frame)"

definition ex_self_st :: "string self_st" where
  "ex_self_st = \<lparr>dfs_st = [0, 1], label_colname_st = ''label'', seed_st = PyInt 7\<rparr>"

text \<open>A fitting routine that empties the frame at address 0.\<close>

definition ex_clobbering :: "(string, real, string list) externals_st" where
  "ex_clobbering =
     (lift_externals ex_externals)
       \<lparr>sk_fit_st := (\<lambda>e X y s. (Inr (lift_fitted ex_fitted), s(0 := \<lparr>nrows = 0, cols = []\<rparr>)))\<rparr>"

section \<open>Unfolding the example\<close>

lemmas ex_defs =
  ex_frame_def ex_fitted_def ex_model_def ex_svm_model_def ex_plain_pipeline_def
  ex_with_threshold_def
  ex_externals_def ex_tester_def ex_tester2_def ex_trainer_def

lemmas pandas_defs =
  values_of_def drop_columns_def getitem_values_def DataFrame_float_def same_length_def
  features_and_label_def wf_dataframe_def

lemmas tester_defs =
  u_test_def u_test_data_def test_body_def y_score_def is_svm_pipeline_def raised_def

lemmas trainer_defs =
  train_def u_training_data_def fit_model_def models_or_first_def raised_def

lemmas store_defs =
  return_st_def pure_st_def opaque_st_def bind_st_def features_and_label_st_def

section \<open>The count check of the testing operation\<close>

lemma raised_not_count_mismatch: "raised r = Inl e \<Longrightarrow> \<not> is_count_mismatch e"
  by (auto simp: raised_def split: sum.splits)

lemma features_and_label_not_count_mismatch:
  "features_and_label k df = Inl e \<Longrightarrow> \<not> is_count_mismatch e"
  by (auto simp: features_and_label_def drop_columns_def getitem_values_def
      split: sum.splits list.splits if_splits)

lemma column1_not_count_mismatch: "column1 p = Inl e \<Longrightarrow> \<not> is_count_mismatch e"
  by (cases p) (auto split: if_splits)

lemma is_svm_pipeline_not_count_mismatch:
  "is_svm_pipeline c = Inl e \<Longrightarrow> \<not> is_count_mismatch e"
  by (auto simp: is_svm_pipeline_def split: estimator.splits option.splits)

lemma y_score_not_count_mismatch: "y_score m X = Inl e \<Longrightarrow> \<not> is_count_mismatch e"
  by (auto simp: y_score_def split: sum.splits bool.splits
      dest: raised_not_count_mismatch column1_not_count_mismatch
        is_svm_pipeline_not_count_mismatch)

lemma DataFrame_float_not_count_mismatch:
  "DataFrame_float f d = Inl e \<Longrightarrow> \<not> is_count_mismatch e"
  by (auto simp: DataFrame_float_def split: option.splits if_splits)

lemma test_body_not_count_mismatch: "test_body E m X y = Inl e \<Longrightarrow> \<not> is_count_mismatch e"
  by (auto simp: test_body_def split: sum.splits
      dest: y_score_not_count_mismatch raised_not_count_mismatch
        DataFrame_float_not_count_mismatch)

lemma test_loop_not_count_mismatch:
  "test_loop E (map (features_and_label k) ds) ms = Inl e \<Longrightarrow> \<not> is_count_mismatch e"
proof (induction ds arbitrary: ms)
  case Nil
  then show ?case by simp
next
  case (Cons d ds)
  show ?case
  proof (cases "features_and_label k d")
    case (Inl e')
    then show ?thesis
      using Cons.prems features_and_label_not_count_mismatch [of k d e'] by simp
  next
    case (Inr xy)
    obtain X y where xy: "xy = (X, y)" by (cases xy)
    show ?thesis
    proof (cases ms)
      case Nil
      then show ?thesis using Inr Cons.prems by simp
    next
      case ms: (Cons m ms')
      show ?thesis
        using Inr xy ms Cons.prems Cons.IH [of ms'] test_body_not_count_mismatch [of E m X y]
        by (auto split: sum.splits)
    qed
  qed
qed

lemma with_threshold_each_not_count_mismatch:
  "with_threshold_each E t rs = Inl e \<Longrightarrow> \<not> is_count_mismatch e"
  by (induction rs arbitrary: e)
     (auto split: sum.splits dest: raised_not_count_mismatch)

lemma u_test_count_mismatch_iff:
  "(\<exists>m d. u_test E self models threshold = Inl (CountMismatch m d)) \<longleftrightarrow>
     length models \<noteq> length (dfs self)"
  by (auto simp: u_test_def u_test_data_def split: sum.splits if_splits
      dest: test_loop_not_count_mismatch with_threshold_each_not_count_mismatch)

lemma test_count_mismatch_iff:
  "(\<exists>m d. test E self models threshold = Inl (CountMismatch m d)) \<longleftrightarrow>
     length models \<noteq> length (dfs self)"
proof -
  have "(\<exists>m d. test E self models threshold = Inl (CountMismatch m d)) \<longleftrightarrow>
        (\<exists>m d. u_test E self models PyNone = Inl (CountMismatch m d))"
    by (auto simp: test_def split: sum.splits if_splits list.splits
        dest: raised_not_count_mismatch)
  then show ?thesis by (simp only: u_test_count_mismatch_iff)
qed

text \<open>
  C1. The internal test routine (and with it the public test operation) raises the module's
  own exception exactly when the number of models differs from the number of test datasets
  of the tester; the exception then reports the two counts.
\<close>

theorem u_test_count_mismatch:
  "((\<exists>m d. u_test E self models threshold = Inl (CountMismatch m d)) \<longleftrightarrow>
      length models \<noteq> length (dfs self)) \<and>
   ((\<exists>m d. test E self models threshold = Inl (CountMismatch m d)) \<longleftrightarrow>
      length models \<noteq> length (dfs self)) \<and>
   (length models \<noteq> length (dfs self) \<longrightarrow>
      u_test E self models threshold =
        Inl (CountMismatch (length models) (length (dfs self))))"
  by (simp add: u_test_count_mismatch_iff test_count_mismatch_iff) (simp add: u_test_def)

theorem u_test_count_mismatch_witness:
  "length ([] :: real model list) \<noteq> length (dfs ex_tester) \<and>
   (\<exists>m d. test ex_externals ex_tester [] PyNone = Inl (CountMismatch m d)) \<and>
   u_test ex_externals ex_tester [] PyNone = Inl (CountMismatch 0 1)"
  using u_test_count_mismatch [of ex_externals ex_tester "[]" PyNone]
  by (simp add: ex_tester_def)

section \<open>The shape of the result tables\<close>

lemma those_length: "those xs = Some ys \<Longrightarrow> length ys = length xs"
  by (induction xs arbitrary: ys) (auto split: option.splits)

lemma getitem_values_Vec_length:
  assumes "wf_dataframe df" and "getitem_values k df = Inr (Vec ys)"
  shows "length ys = nrows df"
proof -
  from assms(2) obtain c where c: "filter (\<lambda>c. fst c = k) (cols df) = [c]" and ys: "ys = snd c"
    by (auto simp: getitem_values_def split: list.splits)
  from c have "c \<in> set (filter (\<lambda>c. fst c = k) (cols df))" by simp
  then have "c \<in> set (cols df)" by simp
  with assms(1) ys show ?thesis by (simp add: wf_dataframe_def list_all_iff)
qed

lemma features_and_label_Vec_length:
  assumes "wf_dataframe df" and "features_and_label k df = Inr (X, Vec ys)"
  shows "length ys = nrows df"
  using assms getitem_values_Vec_length [of df k ys]
  by (auto simp: features_and_label_def split: sum.splits)

lemma DataFrame_float_three:
  assumes "DataFrame_float f [(a, ya), (b, yb), (c, yc)] = Inr df"
  shows "\<exists>xa xb xc fa fb fc.
           ya = Vec xa \<and> yb = Vec xb \<and> yc = Vec xc \<and>
           length xb = length xa \<and> length xc = length xa \<and>
           those (map f xa) = Some fa \<and> those (map f xb) = Some fb \<and>
           those (map f xc) = Some fc \<and>
           df = \<lparr>nrows = length xa, cols = [(a, fa), (b, fb), (c, fc)]\<rparr>"
proof -
  from assms obtain xa xb xc where v: "ya = Vec xa" "yb = Vec xb" "yc = Vec xc"
    by (cases ya; cases yb; cases yc) (auto simp: DataFrame_float_def)
  from assms v have len: "length xb = length xa" "length xc = length xa"
    by (auto simp: DataFrame_float_def same_length_def split: if_splits)
  from assms v len obtain fa fb fc where
    f: "those (map f xa) = Some fa" "those (map f xb) = Some fb" "those (map f xc) = Some fc"
    by (auto simp: DataFrame_float_def same_length_def split: option.splits)
  from assms v len f have "df = \<lparr>nrows = length fa, cols = [(a, fa), (b, fb), (c, fc)]\<rparr>"
    by (auto simp: DataFrame_float_def same_length_def)
  moreover have "length fa = length xa" using those_length [OF f(1)] by simp
  ultimately show ?thesis using v len f by blast
qed

lemma test_body_shape:
  assumes "test_body E m X y = Inr r"
  shows "\<exists>ys. y = Vec ys \<and> result_shape (length ys) r"
proof -
  from assms obtain s p df where
    df: "DataFrame_float (to_float E) [(''actual'', y), (''score'', s), (''predict'', p)] = Inr df"
    and r: "r = PredictionResult df"
    by (auto simp: test_body_def split: sum.splits)
  from DataFrame_float_three [OF df] obtain xa xb xc fa fb fc where
    *: "y = Vec xa" "length xb = length xa" "length xc = length xa"
       "those (map (to_float E) xa) = Some fa" "those (map (to_float E) xb) = Some fb"
       "those (map (to_float E) xc) = Some fc"
       "df = \<lparr>nrows = length xa, cols = [(''actual'', fa), (''score'', fb), (''predict'', fc)]\<rparr>"
    by blast
  have "length fa = length xa" "length fb = length xa" "length fc = length xa"
    using those_length [OF *(4)] those_length [OF *(5)] those_length [OF *(6)] *(2,3) by simp_all
  with * r show ?thesis by (simp add: result_shape_def)
qed

lemma test_loop_shape:
  assumes "test_loop E (map (features_and_label k) ds) ms = Inr rs"
    and "list_all wf_dataframe ds" and "length ms = length ds"
  shows "list_all2 (\<lambda>r df. result_shape (nrows df) r) rs ds"
  using assms
proof (induction ds arbitrary: ms rs)
  case Nil
  then show ?case by simp
next
  case (Cons d ds)
  from Cons.prems(3) obtain m ms' where ms: "ms = m # ms'" "length ms' = length ds"
    by (cases ms) auto
  from Cons.prems(1) ms obtain X y where xy: "features_and_label k d = Inr (X, y)"
    by (cases "features_and_label k d") auto
  from Cons.prems(1) ms xy obtain r rs' where
    r: "test_body E m X y = Inr r" and
    rs': "test_loop E (map (features_and_label k) ds) ms' = Inr rs'" and
    rs: "rs = r # rs'"
    by (auto split: sum.splits)
  from test_body_shape [OF r] obtain ys where ys: "y = Vec ys" "result_shape (length ys) r"
    by blast
  from Cons.prems(2) have wf: "wf_dataframe d" "list_all wf_dataframe ds" by simp_all
  have "length ys = nrows d"
    using features_and_label_Vec_length [OF wf(1)] xy ys(1) by simp
  moreover have "list_all2 (\<lambda>r df. result_shape (nrows df) r) rs' ds"
    using Cons.IH [OF rs' wf(2) ms(2)] .
  ultimately show ?case using rs ys(2) by simp
qed

lemma with_threshold_each_shape:
  assumes "with_threshold_each E t rs = Inr rs'"
    and "\<forall>n r r'. result_shape n r \<and> with_threshold E t r = Inr r' \<longrightarrow> result_shape n r'"
    and "list_all2 (\<lambda>r df. result_shape (nrows df) r) rs ds"
  shows "list_all2 (\<lambda>r df. result_shape (nrows df) r) rs' ds"
  using assms(1,3)
proof (induction rs arbitrary: rs' ds)
  case Nil
  then show ?case by simp
next
  case (Cons r rs)
  from Cons.prems(2) obtain d ds' where ds: "ds = d # ds'" "result_shape (nrows d) r"
    "list_all2 (\<lambda>r df. result_shape (nrows df) r) rs ds'"
    by (auto simp: list_all2_Cons1)
  from Cons.prems(1) obtain r' rs'' where
    r': "with_threshold E t r = Inr r'" and
    rs'': "with_threshold_each E t rs = Inr rs''" and rs': "rs' = r' # rs''"
    by (auto simp: raised_def split: sum.splits)
  have "result_shape (nrows d) r'" using assms(2) ds(2) r' by blast
  moreover have "list_all2 (\<lambda>r df. result_shape (nrows df) r) rs'' ds'"
    using Cons.IH [OF rs'' ds(3)] .
  ultimately show ?case using ds(1) rs' by simp
qed

lemma ex_with_threshold_shape:
  "result_shape n r \<and> ex_with_threshold t r = Inr r' \<longrightarrow> result_shape n r'"
proof
  assume a: "result_shape n r \<and> ex_with_threshold t r = Inr r'"
  obtain df where r: "r = PredictionResult df" by (cases r)
  from a r obtain a' s p where c: "cols df = [(''actual'', a'), (''score'', s), (''predict'', p)]"
    by (auto simp: result_shape_def map_eq_Cons_conv)
  from a r c show "result_shape n r'"
    by (auto simp: result_shape_def ex_with_threshold_def)
qed

text \<open>
  C2. Every result of a successful call of the internal test routine has exactly the columns
  \<^verbatim>\<open>actual\<close>, \<^verbatim>\<open>score\<close> and \<^verbatim>\<open>predict\<close> and as many rows as the test dataset at its
  position (there is one result per dataset). The datasets are frames whose columns are as
  long as their index; when a threshold is applied, the absent \<^verbatim>\<open>with_threshold\<close> is taken
  to keep the shape of a result.
\<close>

theorem u_test_result_shape:
  assumes "u_test E self models threshold = Inr results"
    and "list_all wf_dataframe (dfs self)"
    and "truthy threshold \<longrightarrow>
         (\<forall>n r r'. result_shape n r \<and> with_threshold E threshold r = Inr r' \<longrightarrow> result_shape n r')"
  shows "list_all2 (\<lambda>r df. result_shape (nrows df) r) results (dfs self)"
proof -
  from assms(1) have len: "length models = length (dfs self)"
    by (auto simp: u_test_def split: if_splits)
  from assms(1) len obtain tables where
    tables: "test_loop E (map (features_and_label (label_colname self)) (dfs self)) models = Inr tables"
    and res: "if truthy threshold then with_threshold_each E threshold tables = Inr results
              else results = tables"
    by (auto simp: u_test_def u_test_data_def split: sum.splits if_splits)
  have shape: "list_all2 (\<lambda>r df. result_shape (nrows df) r) tables (dfs self)"
    using test_loop_shape [OF tables assms(2) len] .
  show ?thesis
  proof (cases "truthy threshold")
    case True
    with res assms(3) shape show ?thesis
      using with_threshold_each_shape [of E threshold tables results "dfs self"] by simp
  next
    case False
    with res shape show ?thesis by simp
  qed
qed

theorem u_test_result_shape_witness:
  "u_test ex_externals ex_tester [ex_model] (PyFloat (1/2)) =
     Inr [PredictionResult
           \<lparr>nrows = 2,
            cols = [(''actual'', [0, 1]), (''score'', [1/4, 4/5]), (''predict'', [0, 1])]\<rparr>] \<and>
   list_all wf_dataframe (dfs ex_tester) \<and>
   truthy (PyFloat (1/2)) \<and>
   list_all2 (\<lambda>r df. result_shape (nrows df) r)
     [PredictionResult
       \<lparr>nrows = 2,
        cols = [(''actual'', [0, 1]), (''score'', [1/4, 4/5]), (''predict'', [0, 1 :: real])]\<rparr>]
     (dfs ex_tester)"
proof -
  have run: "u_test ex_externals ex_tester [ex_model] (PyFloat (1/2)) =
     Inr [PredictionResult
           \<lparr>nrows = 2,
            cols = [(''actual'', [0, 1]), (''score'', [1/4, 4/5]), (''predict'', [0, 1])]\<rparr>]"
    by (simp add: ex_defs pandas_defs tester_defs)
  have wf: "list_all wf_dataframe (dfs ex_tester)"
    by (simp add: ex_defs pandas_defs)
  have keep: "truthy (PyFloat (1/2)) \<longrightarrow>
      (\<forall>n r r'. result_shape n r \<and> with_threshold ex_externals (PyFloat (1/2)) r = Inr r' \<longrightarrow>
         result_shape n r')"
    using ex_with_threshold_shape by (simp add: ex_externals_def)
  show ?thesis
    using u_test_result_shape [OF run wf keep] run wf by simp
qed

section \<open>Where the score comes from\<close>

lemma isinstance_LinearSVC_case:
  "isinstance_LinearSVC e = (case e of LinearSVC c d s \<Rightarrow> True | _ \<Rightarrow> False)"
  by (cases e) simp_all

lemma is_svm_pipeline_wrapped:
  "is_svm_pipeline e = Inr b \<Longrightarrow> b = wrapped_classifier e"
proof (cases e)
  case (Pipeline steps)
  assume "is_svm_pipeline e = Inr b"
  with Pipeline show ?thesis
    by (cases "map_of (rev steps) ''svm''")
       (auto simp: is_svm_pipeline_def wrapped_classifier_def isinstance_LinearSVC_case)
qed (auto simp: is_svm_pipeline_def wrapped_classifier_def)

lemma y_score_source:
  assumes "y_score m X = Inr (Vec s)"
  shows "score_source m X s"
proof -
  from assms obtain b where b: "is_svm_pipeline (estimator m) = Inr b"
    by (auto simp: y_score_def split: sum.splits)
  have w: "b = wrapped_classifier (estimator m)" using is_svm_pipeline_wrapped [OF b] .
  show ?thesis
  proof (cases b)
    case True
    with assms b w show ?thesis
      by (auto simp: y_score_def score_source_def raised_def split: sum.splits)
  next
    case False
    with assms b obtain p where p: "predict_proba m X = Inr p" "column1 p = Inr (Vec s)"
      by (auto simp: y_score_def raised_def split: sum.splits)
    from p(2) obtain n cs where "p = Mat n cs" "1 < length cs" "cs ! 1 = s"
      by (cases p) (auto split: if_splits)
    with p(1) False w show ?thesis by (simp add: score_source_def)
  qed
qed





text \<open>The two models of the example take the two branches.\<close>

lemma ex_kinds:
  "\<not> wrapped_classifier (estimator ex_model)" "wrapped_classifier (estimator ex_svm_model)"
  by (simp_all add: ex_defs wrapped_classifier_def)

text \<open>
  The same choice holds of the score computation itself, errors of the model's methods
  included, whenever the check of the model's kind gives an answer.
\<close>

lemma y_score_by_kind:
  assumes "is_svm_pipeline (estimator m) = Inr b"
  shows "y_score m X =
           (if wrapped_classifier (estimator m) then raised (decision_function m X)
            else (case raised (predict_proba m X) of
                    Inl err \<Rightarrow> Inl err
                  | Inr p \<Rightarrow> column1 p))"
  using assms is_svm_pipeline_wrapped [OF assms]
  by (cases b) (simp_all add: y_score_def)


text \<open>So does every pipeline without such a step, on any features.\<close>

lemma y_score_pipeline_without_svm:
  "estimator m = Pipeline steps \<Longrightarrow> map_of (rev steps) ''svm'' = None \<Longrightarrow>
     y_score m X = Inl AttributeError"
  by (simp add: y_score_def is_svm_pipeline_def)

section \<open>How many models training returns\<close>

lemma fit_loop_length:
  "fit_loop E e items = Inr ms \<Longrightarrow> length ms = length items"
proof (induction items arbitrary: ms)
  case Nil
  then show ?case by simp
next
  case (Cons it items)
  then show ?case
    by (cases it) (auto split: sum.splits prod.splits)
qed

lemma models_or_first_count:
  "models_or_first ms = Inr t \<Longrightarrow> num_models t = length ms"
  by (cases ms) (auto simp: models_or_first_def split: if_splits)

lemma train_count:
  assumes "train E self e = Inr t"
  shows "num_models t = length (dfs self)"
proof -
  from assms obtain ms where
    ms: "fit_loop E e (u_training_data self) = Inr ms" and t: "models_or_first ms = Inr t"
    by (auto simp: train_def split: sum.splits)
  have "length ms = length (dfs self)"
    using fit_loop_length [OF ms] by (simp add: u_training_data_def)
  with models_or_first_count [OF t] show ?thesis by simp
qed

text \<open>
  C5. Each of the eight training methods, when it returns, returns as many fitted models as
  the trainer has training datasets: a list of them, or the one model itself when there is
  one dataset. (With no dataset no method returns: \<^verbatim>\<open>models[0]\<close> raises.)
\<close>

theorem trained_count:
  assumes "outcome \<in> set [dummy E self, logistic_regression E self c, decision_tree E self max_depth,
                         k_nearest E self k, linear_svm E self c', forest E self n_trees,
                         bagging E self n_bag, boosting E self n_boost]"
    and "outcome = Inr t"
  shows "num_models t = length (dfs self)"
proof -
  from assms have "\<exists>e. train E self e = Inr t"
    by (auto simp: dummy_def logistic_regression_def decision_tree_def k_nearest_def
        linear_svm_def forest_def bagging_def boosting_def)
  then show ?thesis using train_count by blast
qed

theorem trained_count_witness:
  "linear_svm ex_externals ex_trainer (PyInt 1) \<in>
     set [dummy ex_externals ex_trainer, logistic_regression ex_externals ex_trainer (PyInt 1),
          decision_tree ex_externals ex_trainer PyNone, k_nearest ex_externals ex_trainer (PyInt 5),
          linear_svm ex_externals ex_trainer (PyInt 1), forest ex_externals ex_trainer (PyInt 10),
          bagging ex_externals ex_trainer (PyInt 10), boosting ex_externals ex_trainer (PyInt 10)] \<and>
   linear_svm ex_externals ex_trainer (PyInt 1) =
     Inr (Models [ex_svm_model\<lparr>estimator := Pipeline [(''scale'', StandardScaler), (''svm'', LinearSVC (PyInt 1) False (PyInt 7))]\<rparr>,
                  ex_svm_model\<lparr>estimator := Pipeline [(''scale'', StandardScaler), (''svm'', LinearSVC (PyInt 1) False (PyInt 7))]\<rparr>]) \<and>
   num_models (Models [ex_svm_model\<lparr>estimator := Pipeline [(''scale'', StandardScaler), (''svm'', LinearSVC (PyInt 1) False (PyInt 7))]\<rparr>,
                  ex_svm_model\<lparr>estimator := Pipeline [(''scale'', StandardScaler), (''svm'', LinearSVC (PyInt 1) False (PyInt 7))]\<rparr>]) =
     length (dfs ex_trainer)"
proof -
  have mem: "linear_svm ex_externals ex_trainer (PyInt 1) \<in>
     set [dummy ex_externals ex_trainer, logistic_regression ex_externals ex_trainer (PyInt 1),
          decision_tree ex_externals ex_trainer PyNone, k_nearest ex_externals ex_trainer (PyInt 5),
          linear_svm ex_externals ex_trainer (PyInt 1), forest ex_externals ex_trainer (PyInt 10),
          bagging ex_externals ex_trainer (PyInt 10), boosting ex_externals ex_trainer (PyInt 10)]"
    by simp
  have run: "linear_svm ex_externals ex_trainer (PyInt 1) =
     Inr (Models [ex_svm_model\<lparr>estimator := Pipeline [(''scale'', StandardScaler), (''svm'', LinearSVC (PyInt 1) False (PyInt 7))]\<rparr>,
                  ex_svm_model\<lparr>estimator := Pipeline [(''scale'', StandardScaler), (''svm'', LinearSVC (PyInt 1) False (PyInt 7))]\<rparr>])"
    by (simp add: linear_svm_def ex_defs pandas_defs trainer_defs)
  show ?thesis
    by (intro conjI mem run trained_count [OF mem run])
qed

lemma single_dataset_gives_bare_model:
  "dummy ex_externals (ex_trainer\<lparr>dfs := [ex_frame]\<rparr>) =
     Inr (Model (ex_model\<lparr>estimator := DummyClassifier (PyInt 7)\<rparr>))"
  by (simp add: dummy_def ex_defs pandas_defs trainer_defs)

lemma no_dataset_raises:
  "dummy ex_externals (ex_trainer\<lparr>dfs := []\<rparr>) = Inl IndexError"
  by (simp add: dummy_def ex_defs pandas_defs trainer_defs)

section \<open>Training all methods\<close>

lemma setitem_fresh: "k \<notin> fst ` set ps \<Longrightarrow> setitem ps k v = ps @ [(k, v)]"
  by (induction ps) auto

lemma train_all_loop_exclude:
  "train_all_loop parameters exclude ms acc = train_all_loop parameters [] ms acc"
proof (induction ms arbitrary: acc)
  case Nil
  show ?case by simp
next
  case (Cons nf ms)
  obtain name func where nf: "nf = (name, func)" by (cases nf)
  show ?case
    unfolding nf using Cons.IH by (simp add: then_do_def split: sum.splits)
qed

lemma train_all_loop_result:
  assumes "train_all_loop parameters exclude ms acc = Inr d"
    and "distinct (map fst ms)" and "set (map fst ms) \<inter> fst ` set acc = {}"
  shows "\<exists>d'. d = acc @ d' \<and>
           list_all2 (\<lambda>nf nt. fst nt = fst nf \<and>
              snd nf (case parameters (fst nf) of None \<Rightarrow> [] | Some params \<Rightarrow> params) = Inr (snd nt))
             ms d'"
  using assms
proof (induction ms arbitrary: acc)
  case Nil
  then show ?case by simp
next
  case (Cons nf ms)
  obtain name func where nf: "nf = (name, func)" by (cases nf)
  from Cons.prems(1) nf obtain m where
    m: "func (case parameters name of None \<Rightarrow> [] | Some params \<Rightarrow> params) = Inr m" and
    rest: "train_all_loop parameters exclude ms (setitem acc name m) = Inr d"
    by (auto simp: then_do_def split: sum.splits)
  from Cons.prems(3) nf have fresh: "name \<notin> fst ` set acc" by auto
  then have upd: "setitem acc name m = acc @ [(name, m)]" by (rule setitem_fresh)
  from Cons.prems(2) have d1: "distinct (map fst ms)" by simp
  from Cons.prems(2,3) nf have d2: "set (map fst ms) \<inter> fst ` set (acc @ [(name, m)]) = {}"
    by auto
  from Cons.IH [OF rest [unfolded upd] d1 d2] obtain d' where
    d': "d = (acc @ [(name, m)]) @ d'"
        "list_all2 (\<lambda>nf nt. fst nt = fst nf \<and>
              snd nf (case parameters (fst nf) of None \<Rightarrow> [] | Some params \<Rightarrow> params) = Inr (snd nt))
             ms d'"
    by blast
  have "d = acc @ ((name, m) # d')" using d'(1) by simp
  moreover have "list_all2 (\<lambda>nf nt. fst nt = fst nf \<and>
              snd nf (case parameters (fst nf) of None \<Rightarrow> [] | Some params \<Rightarrow> params) = Inr (snd nt))
             (nf # ms) ((name, m) # d')"
    using d'(2) m nf by simp
  ultimately show ?case by blast
qed

lemma methods_names:
  "map fst (methods E self) =
     [''dummy'', ''logistic_regression'', ''decision_tree'', ''k_nearest'', ''linear_svm'',
      ''forest'', ''bagging'', ''boosting'']"
  by (simp add: methods_def)

lemma list_all2_fst_eq:
  "list_all2 (\<lambda>x y. fst y = fst x \<and> Q x y) xs ys \<Longrightarrow> map fst ys = map fst xs"
  by (induction xs ys rule: list_all2_induct) auto

text \<open>
  C8. \<^verbatim>\<open>train_all\<close> does the same whatever the exclude list is, and when it returns, the
  dictionary has exactly the eight method names as keys, each with what its training method
  returned on the keyword parameters stored for it.
\<close>

theorem train_all_ignores_exclude:
  "train_all E self parameters exclude = train_all E self parameters [] \<and>
   (train_all E self parameters exclude = Inr models \<longrightarrow>
      map fst models =
        [''dummy'', ''logistic_regression'', ''decision_tree'', ''k_nearest'', ''linear_svm'',
         ''forest'', ''bagging'', ''boosting''] \<and>
      list_all2 (\<lambda>nf nt. fst nt = fst nf \<and>
          snd nf (case parameters (fst nf) of None \<Rightarrow> [] | Some params \<Rightarrow> params) = Inr (snd nt))
        (methods E self) models)"
proof (intro conjI impI)
  show "train_all E self parameters exclude = train_all E self parameters []"
    unfolding train_all_def by (rule train_all_loop_exclude)
next
  assume a: "train_all E self parameters exclude = Inr models"
  have dist: "distinct (map fst (methods E self))" by (simp add: methods_names)
  from a have "train_all_loop parameters exclude (methods E self) [] = Inr models"
    by (simp add: train_all_def)
  from train_all_loop_result [OF this dist]
  show l: "list_all2 (\<lambda>nf nt. fst nt = fst nf \<and>
          snd nf (case parameters (fst nf) of None \<Rightarrow> [] | Some params \<Rightarrow> params) = Inr (snd nt))
        (methods E self) models"
    by simp
  show "map fst models =
        [''dummy'', ''logistic_regression'', ''decision_tree'', ''k_nearest'', ''linear_svm'',
         ''forest'', ''bagging'', ''boosting'']"
    using list_all2_fst_eq [OF l] by (simp only: methods_names)
qed

lemma ex_train_all:
  "train_all ex_externals ex_trainer [''decision_tree'' \<mapsto> [(''max_depth'', PyInt 3)]]
     [''dummy'', ''forest''] = Inr ex_trained"
  by (simp add: train_all_def methods_def call0_def call1_def then_do_def ex_trained_def
      dummy_def logistic_regression_def decision_tree_def k_nearest_def linear_svm_def
      forest_def bagging_def boosting_def ex_defs pandas_defs trainer_defs)

theorem train_all_ignores_exclude_witness:
  "train_all ex_externals ex_trainer [''decision_tree'' \<mapsto> [(''max_depth'', PyInt 3)]]
     [''dummy'', ''forest''] = Inr ex_trained \<and>
   train_all ex_externals ex_trainer [''decision_tree'' \<mapsto> [(''max_depth'', PyInt 3)]]
     [''dummy'', ''forest''] =
   train_all ex_externals ex_trainer [''decision_tree'' \<mapsto> [(''max_depth'', PyInt 3)]] [] \<and>
   map fst ex_trained =
     [''dummy'', ''logistic_regression'', ''decision_tree'', ''k_nearest'', ''linear_svm'',
      ''forest'', ''bagging'', ''boosting'']"
  using train_all_ignores_exclude [of ex_externals ex_trainer
      "[''decision_tree'' \<mapsto> [(''max_depth'', PyInt 3)]]" "[''dummy'', ''forest'']" ex_trained]
    ex_train_all
  by simp

section \<open>Evaluating on several test datasets\<close>

lemma u_test_one_model:
  "1 < length (dfs self) \<Longrightarrow>
     u_test E self [m] threshold = Inl (CountMismatch 1 (length (dfs self)))"
  by (simp add: u_test_def)

text \<open>
  C9. On a tester with more than one test dataset, the internal test routine raises the
  count mismatch for any single model, which is how \<^verbatim>\<open>evaluate\<close> calls it for every entry
  of the model dictionary; so \<^verbatim>\<open>evaluate\<close> raises it, at the first entry, whenever the
  dictionary has one.
\<close>

theorem evaluate_many_datasets:
  assumes "1 < length (dfs self)"
  shows "(\<forall>m. u_test E self [m] PyNone = Inl (CountMismatch 1 (length (dfs self)))) \<and>
         (model_dict \<noteq> [] \<longrightarrow>
            evaluate E self model_dict thresholds = Inl (CountMismatch 1 (length (dfs self))))"
proof (intro conjI allI impI)
  fix m
  show "u_test E self [m] PyNone = Inl (CountMismatch 1 (length (dfs self)))"
    using assms by (rule u_test_one_model)
next
  assume "model_dict \<noteq> []"
  then obtain name m rest where md: "model_dict = (name, m) # rest"
    by (cases model_dict) auto
  show "evaluate E self model_dict thresholds = Inl (CountMismatch 1 (length (dfs self)))"
    unfolding evaluate_def md by (simp add: u_test_one_model [OF assms])
qed

theorem evaluate_many_datasets_witness:
  "1 < length (dfs ex_tester2) \<and> [(''a'', ex_model), (''b'', ex_svm_model)] \<noteq> [] \<and>
   u_test ex_externals ex_tester2 [ex_model] PyNone = Inl (CountMismatch 1 2) \<and>
   u_test ex_externals ex_tester2 [ex_svm_model] PyNone = Inl (CountMismatch 1 2) \<and>
   evaluate ex_externals ex_tester2 [(''a'', ex_model), (''b'', ex_svm_model)] None =
     Inl (CountMismatch 1 2)"
proof -
  have h: "1 < length (dfs ex_tester2)" by (simp add: ex_tester2_def)
  have n: "length (dfs ex_tester2) = 2" by (simp add: ex_tester2_def)
  show ?thesis
    using evaluate_many_datasets [OF h, of ex_externals "[(''a'', ex_model), (''b'', ex_svm_model)]" None]
      h n by simp
qed

text \<open>With one test dataset \<^verbatim>\<open>evaluate\<close> goes through.\<close>

lemma evaluate_single_dataset_example:
  "evaluate ex_externals ex_tester [(''a'', ex_model), (''b'', ex_svm_model)] None =
     Inr [''a'', ''b'']"
  by (simp add: evaluate_def ex_defs pandas_defs tester_defs)

section \<open>A threshold of zero\<close>

lemma test_body_with_threshold_update:
  "test_body (E\<lparr>with_threshold := w\<rparr>) m X y = test_body E m X y"
  by (simp add: test_body_def cong: sum.case_cong)

lemma test_loop_with_threshold_update:
  "test_loop (E\<lparr>with_threshold := w\<rparr>) items ms = test_loop E items ms"
  by (induction E items ms rule: test_loop.induct)
     (simp_all add: test_body_with_threshold_update cong: sum.case_cong)

text \<open>
  C10. With a threshold equal to zero (the integer or the float) the internal test routine
  returns what it returns without a threshold, and never calls \<^verbatim>\<open>with_threshold\<close>: the
  outcome is the same whatever that method is.
\<close>

theorem zero_threshold_not_applied:
  assumes "threshold \<in> {PyInt 0, PyFloat 0}"
  shows "u_test E self models threshold = u_test E self models PyNone \<and>
         u_test (E\<lparr>with_threshold := w\<rparr>) self models threshold = u_test E self models threshold"
proof -
  from assms have f: "\<not> truthy threshold" by auto
  then show ?thesis
    by (simp add: u_test_def test_loop_with_threshold_update cong: sum.case_cong)
qed

theorem zero_threshold_not_applied_witness:
  "PyFloat 0 \<in> {PyInt 0, PyFloat 0} \<and>
   u_test ex_externals ex_tester [ex_model] PyNone =
     Inr [PredictionResult
           \<lparr>nrows = 2,
            cols = [(''actual'', [0, 1]), (''score'', [1/4, 4/5]), (''predict'', [0, 1])]\<rparr>] \<and>
   u_test ex_externals ex_tester [ex_model] (PyFloat 0) =
     Inr [PredictionResult
           \<lparr>nrows = 2,
            cols = [(''actual'', [0, 1]), (''score'', [1/4, 4/5]), (''predict'', [0, 1])]\<rparr>]"
proof -
  have z: "PyFloat 0 \<in> {PyInt 0, PyFloat 0}" by simp
  have run: "u_test ex_externals ex_tester [ex_model] PyNone =
     Inr [PredictionResult
           \<lparr>nrows = 2,
            cols = [(''actual'', [0, 1]), (''score'', [1/4, 4/5]), (''predict'', [0, 1])]\<rparr>]"
    by (simp add: ex_defs pandas_defs tester_defs)
  from zero_threshold_not_applied [OF z, of ex_externals ex_tester "[ex_model]"]
  have "u_test ex_externals ex_tester [ex_model] (PyFloat 0) =
        u_test ex_externals ex_tester [ex_model] PyNone"
    by (rule conjunct1)
  with z run show ?thesis by simp
qed

text \<open>
  Applied at threshold zero, the stand-in of the example would have changed the
  predictions.
\<close>

lemma ex_with_threshold_zero:
  "ex_with_threshold (PyFloat 0)
     (PredictionResult
       \<lparr>nrows = 2,
        cols = [(''actual'', [0, 1]), (''score'', [1/4, 4/5]), (''predict'', [0, 1])]\<rparr>) =
   Inr (PredictionResult
         \<lparr>nrows = 2,
          cols = [(''actual'', [0, 1]), (''score'', [1/4, 4/5]), (''predict'', [1, 1])]\<rparr>)"
  by (simp add: ex_with_threshold_def)

section \<open>The threshold of the public test operation\<close>

text \<open>
  \<^verbatim>\<open>test\<close> accepts a threshold and calls \<^verbatim>\<open>self._test(*models)\<close> without it: its outcome
  does not depend on the threshold, nor on what \<^verbatim>\<open>with_threshold\<close> does.
\<close>

lemma test_ignores_threshold:
  "test E self models threshold = test E self models PyNone \<and>
   test (E\<lparr>with_threshold := w\<rparr>) self models threshold = test E self models threshold"
proof -
  have "u_test (E\<lparr>with_threshold := w\<rparr>) self models PyNone = u_test E self models PyNone"
    by (simp add: u_test_def test_loop_with_threshold_update cong: sum.case_cong)
  then show ?thesis
    by (simp add: test_def split: sum.splits)
qed

text \<open>
  C4. The claim is that \<^verbatim>\<open>test\<close> applies a supplied threshold to each result before
  returning. On the example, with threshold 1/5, \<^verbatim>\<open>test\<close> returns the model's own
  predictions \<open>[0, 1]\<close>, where the internal routine given the same threshold (as
  \<^verbatim>\<open>evaluate_splits\<close> passes it on) returns the thresholded predictions \<open>[1, 1]\<close>.
\<close>

theorem test_drops_threshold:
  "test ex_externals ex_tester [ex_model] (PyFloat (1/5)) =
     Inr (Inl (PredictionResult
           \<lparr>nrows = 2,
            cols = [(''actual'', [0, 1]), (''score'', [1/4, 4/5]), (''predict'', [0, 1])]\<rparr>)) \<and>
   u_test ex_externals ex_tester [ex_model] (PyFloat (1/5)) =
     Inr [PredictionResult
           \<lparr>nrows = 2,
            cols = [(''actual'', [0, 1]), (''score'', [1/4, 4/5]), (''predict'', [1, 1])]\<rparr>] \<and>
   evaluate_splits ex_externals ex_tester [(''a'', [ex_model])] (PyFloat (1/5)) = Inr [''a'']"
  by (simp add: test_def evaluate_splits_def ex_defs pandas_defs tester_defs)

section \<open>Features and label\<close>

lemma features_and_label_split:
  assumes "features_and_label k df = Inr (X, y)"
  shows "X = feature_matrix k df \<and> y = label_array k df"
proof -
  from assms obtain d where d: "drop_columns k df = Inr d" and X: "X = values_of d"
    and y: "getitem_values k df = Inr y"
    by (auto simp: features_and_label_def split: sum.splits)
  from d have "d = df\<lparr>cols := filter (\<lambda>c. fst c \<noteq> k) (cols df)\<rparr>"
    by (auto simp: drop_columns_def split: if_splits)
  with X have 1: "X = feature_matrix k df"
    by (simp add: values_of_def feature_matrix_def)
  from y have 2: "y = label_array k df"
    by (auto simp: getitem_values_def label_array_def split: list.splits)
  from 1 2 show ?thesis by simp
qed

lemma fit_loop_inputs:
  assumes "fit_loop E e (map (features_and_label k) ds) = Inr ms"
  shows "list_all2 (\<lambda>df m. fit_model E e (feature_matrix k df) (label_array k df) = Inr m) ds ms"
  using assms
proof (induction ds arbitrary: ms)
  case Nil
  then show ?case by simp
next
  case (Cons d ds)
  from Cons.prems obtain X y where xy: "features_and_label k d = Inr (X, y)"
    by (cases "features_and_label k d") auto
  from Cons.prems xy obtain m ms' where
    m: "fit_model E e X y = Inr m" and
    ms': "fit_loop E e (map (features_and_label k) ds) = Inr ms'" and
    ms: "ms = m # ms'"
    by (auto split: sum.splits)
  from features_and_label_split [OF xy] m
  have "fit_model E e (feature_matrix k d) (label_array k d) = Inr m" by simp
  with Cons.IH [OF ms'] ms show ?case by simp
qed

lemma models_or_first_models_of:
  "models_or_first ms = Inr t \<Longrightarrow> models_of t = ms"
  by (cases ms) (auto simp: models_or_first_def split: if_splits)

lemma train_inputs:
  assumes "train E self e = Inr t"
  shows "list_all2
           (\<lambda>df m. fit_model E e (feature_matrix (label_colname self) df)
                      (label_array (label_colname self) df) = Inr m)
           (dfs self) (models_of t)"
proof -
  from assms obtain ms where
    ms: "fit_loop E e (map (features_and_label (label_colname self)) (dfs self)) = Inr ms"
    and t: "models_or_first ms = Inr t"
    by (auto simp: train_def u_training_data_def split: sum.splits)
  from fit_loop_inputs [OF ms] models_or_first_models_of [OF t] show ?thesis by simp
qed

lemma test_loop_inputs:
  assumes "test_loop E (map (features_and_label k) ds) ms = Inr rs"
    and "length ms = length ds"
  shows "list_all2
           (\<lambda>dm r. test_body E (snd dm) (feature_matrix k (fst dm)) (label_array k (fst dm)) = Inr r)
           (zip ds ms) rs"
  using assms
proof (induction ds arbitrary: ms rs)
  case Nil
  then show ?case by simp
next
  case (Cons d ds)
  from Cons.prems(2) obtain m ms' where ms: "ms = m # ms'" "length ms' = length ds"
    by (cases ms) auto
  from Cons.prems(1) ms obtain X y where xy: "features_and_label k d = Inr (X, y)"
    by (cases "features_and_label k d") auto
  from Cons.prems(1) ms xy obtain r rs' where
    r: "test_body E m X y = Inr r" and
    rs': "test_loop E (map (features_and_label k) ds) ms' = Inr rs'" and
    rs: "rs = r # rs'"
    by (auto split: sum.splits)
  from features_and_label_split [OF xy] r
  have "test_body E m (feature_matrix k d) (label_array k d) = Inr r" by simp
  with Cons.IH [OF rs' ms(2)] ms rs show ?case by simp
qed

lemma u_test_inputs:
  assumes "u_test E self models threshold = Inr results"
  shows "\<exists>tables.
           (if truthy threshold then with_threshold_each E threshold tables = Inr results
            else results = tables) \<and>
           list_all2
             (\<lambda>dm r. test_body E (snd dm) (feature_matrix (label_colname self) (fst dm))
                        (label_array (label_colname self) (fst dm)) = Inr r)
             (zip (dfs self) models) tables"
proof -
  from assms have len: "length models = length (dfs self)"
    by (auto simp: u_test_def split: if_splits)
  from assms len obtain tables where
    tables: "test_loop E (map (features_and_label (label_colname self)) (dfs self)) models = Inr tables"
    and res: "if truthy threshold then with_threshold_each E threshold tables = Inr results
              else results = tables"
    by (auto simp: u_test_def u_test_data_def split: sum.splits if_splits)
  from test_loop_inputs [OF tables len] res show ?thesis by blast
qed

lemma fit_model_fitted_by:
  "fit_model E e X y = Inr m \<Longrightarrow> fitted_by E e X y m"
  by (cases "sk_fit E e X y") (auto simp: fit_model_def fitted_by_def raised_def)

lemma test_body_tested_on:
  assumes "test_body E m X y = Inr r"
  shows "tested_on E m X y r"
proof -
  from assms obtain sc yp df where
    sc: "y_score m X = Inr sc" and yp: "predict m X = Inr yp" and
    df: "DataFrame_float (to_float E) [(''actual'', y), (''score'', sc), (''predict'', yp)] = Inr df"
    and r: "r = PredictionResult df"
    by (auto simp: test_body_def raised_def split: sum.splits)
  from DataFrame_float_three [OF df] obtain xa xb xc fa fb fc where
    *: "y = Vec xa" "sc = Vec xb" "yp = Vec xc"
       "those (map (to_float E) xa) = Some fa" "those (map (to_float E) xb) = Some fb"
       "those (map (to_float E) xc) = Some fc"
       "df = \<lparr>nrows = length xa, cols = [(''actual'', fa), (''score'', fb), (''predict'', fc)]\<rparr>"
    by blast
  have src: "score_source m X xb" using y_score_source [of m X xb] sc *(2) by simp
  have p: "predict m X = Inr (Vec xc)" using yp *(3) by simp
  have t: "table r =
      \<lparr>nrows = length xa, cols = [(''actual'', fa), (''score'', fb), (''predict'', fc)]\<rparr>"
    using r *(7) by simp
  show ?thesis
    unfolding tested_on_def using *(1) src p *(4,5,6) t by blast
qed

lemma train_library_inputs:
  assumes "train E self e = Inr t"
  shows "list_all2
           (\<lambda>df m. fitted_by E e (feature_matrix (label_colname self) df)
                      (label_array (label_colname self) df) m)
           (dfs self) (models_of t)"
  using train_inputs [OF assms]
  by (rule list_all2_mono) (rule fit_model_fitted_by)

lemma u_test_library_inputs:
  assumes "u_test E self models threshold = Inr results"
  shows "\<exists>tables.
           (if truthy threshold then with_threshold_each E threshold tables = Inr results
            else results = tables) \<and>
           list_all2
             (\<lambda>dm r. tested_on E (snd dm) (feature_matrix (label_colname self) (fst dm))
                        (label_array (label_colname self) (fst dm)) r)
             (zip (dfs self) models) tables"
proof -
  from u_test_inputs [OF assms] obtain tables where
    res: "if truthy threshold then with_threshold_each E threshold tables = Inr results
          else results = tables" and
    built: "list_all2
             (\<lambda>dm r. test_body E (snd dm) (feature_matrix (label_colname self) (fst dm))
                        (label_array (label_colname self) (fst dm)) = Inr r)
             (zip (dfs self) models) tables"
    by blast
  have "list_all2
          (\<lambda>dm r. tested_on E (snd dm) (feature_matrix (label_colname self) (fst dm))
                     (label_array (label_colname self) (fst dm)) r)
          (zip (dfs self) models) tables"
    using built by (rule list_all2_mono) (rule test_body_tested_on)
  with res show ?thesis by blast
qed

text \<open>
  C6. For every dataset of a trainer or a tester, the pair the generator yields is the
  feature matrix, which leaves out the column with the designated label, and the label
  array, which is that column; and these are what the library receives. Each model a
  training call returns is the estimator on which scikit-learn's fit was called with the
  feature matrix and the label array of the dataset at its position. Each table the test
  routine builds has the label array of its dataset as the \<^verbatim>\<open>actual\<close> column, and as
  the \<^verbatim>\<open>score\<close> and \<^verbatim>\<open>predict\<close> columns what the model's decision function or
  probabilities and the model's \<^verbatim>\<open>predict\<close> give on the feature matrix of that dataset.
\<close>

theorem label_excluded_from_features:
  "(\<forall>i < length (dfs trainer). \<forall>X y.
      u_training_data trainer ! i = Inr (X, y) \<longrightarrow>
        X = feature_matrix (label_colname trainer) (dfs trainer ! i) \<and>
        y = label_array (label_colname trainer) (dfs trainer ! i)) \<and>
   (\<forall>i < length (dfs tester). \<forall>X y.
      u_test_data tester ! i = Inr (X, y) \<longrightarrow>
        X = feature_matrix (label_colname tester) (dfs tester ! i) \<and>
        y = label_array (label_colname tester) (dfs tester ! i)) \<and>
   (train E trainer e = Inr t \<longrightarrow>
      list_all2
        (\<lambda>df m. fitted_by E e (feature_matrix (label_colname trainer) df)
                   (label_array (label_colname trainer) df) m)
        (dfs trainer) (models_of t)) \<and>
   (u_test E tester models threshold = Inr results \<longrightarrow>
      (\<exists>tables.
         (if truthy threshold then with_threshold_each E threshold tables = Inr results
          else results = tables) \<and>
         list_all2
           (\<lambda>dm r. tested_on E (snd dm) (feature_matrix (label_colname tester) (fst dm))
                      (label_array (label_colname tester) (fst dm)) r)
           (zip (dfs tester) models) tables))"
  using train_library_inputs [of E trainer e t]
    u_test_library_inputs [of E tester models threshold results]
  by (simp add: u_training_data_def u_test_data_def features_and_label_split)

lemma ex_feature_matrix: "feature_matrix ''label'' ex_frame = Mat 2 [[30, 40]]"
  by (simp add: feature_matrix_def ex_frame_def)

lemma ex_label_array: "label_array ''label'' ex_frame = Vec [0, 1]"
  by (simp add: label_array_def ex_frame_def)

theorem label_excluded_from_features_witness:
  "u_training_data ex_trainer ! 1 = Inr (Mat 2 [[30, 40]], Vec [0, 1]) \<and>
   u_test_data ex_tester ! 0 = Inr (Mat 2 [[30, 40]], Vec [0, 1]) \<and>
   Mat 2 [[30, 40]] = feature_matrix (label_colname ex_trainer) (dfs ex_trainer ! 1) \<and>
   Vec [0, 1] = label_array (label_colname ex_trainer) (dfs ex_trainer ! 1) \<and>
   Mat 2 [[30, 40]] = feature_matrix (label_colname ex_tester) (dfs ex_tester ! 0) \<and>
   Vec [0, 1] = label_array (label_colname ex_tester) (dfs ex_tester ! 0) \<and>
   train ex_externals ex_trainer (KNeighborsClassifier (PyInt 5)) =
     Inr (Models [ex_model\<lparr>estimator := KNeighborsClassifier (PyInt 5)\<rparr>,
                  ex_model\<lparr>estimator := KNeighborsClassifier (PyInt 5)\<rparr>]) \<and>
   list_all2
     (\<lambda>df m. fitted_by ex_externals (KNeighborsClassifier (PyInt 5))
                (feature_matrix (label_colname ex_trainer) df)
                (label_array (label_colname ex_trainer) df) m)
     (dfs ex_trainer)
     [ex_model\<lparr>estimator := KNeighborsClassifier (PyInt 5)\<rparr>,
      ex_model\<lparr>estimator := KNeighborsClassifier (PyInt 5)\<rparr>] \<and>
   u_test ex_externals ex_tester [ex_model] PyNone =
     Inr [PredictionResult
           \<lparr>nrows = 2,
            cols = [(''actual'', [0, 1]), (''score'', [1/4, 4/5]), (''predict'', [0, 1])]\<rparr>] \<and>
   list_all2
     (\<lambda>dm r. tested_on ex_externals (snd dm) (feature_matrix (label_colname ex_tester) (fst dm))
                (label_array (label_colname ex_tester) (fst dm)) r)
     (zip (dfs ex_tester) [ex_model])
     [PredictionResult
       \<lparr>nrows = 2,
        cols = [(''actual'', [0, 1]), (''score'', [1/4, 4/5]), (''predict'', [0, 1])]\<rparr>]"
proof -
  have g1: "u_training_data ex_trainer ! 1 = Inr (Mat 2 [[30, 40]], Vec [0, 1])"
    by (simp add: u_training_data_def ex_defs pandas_defs)
  have g2: "u_test_data ex_tester ! 0 = Inr (Mat 2 [[30, 40]], Vec [0, 1])"
    by (simp add: u_test_data_def ex_defs pandas_defs)
  have i1: "1 < length (dfs ex_trainer)" and i2: "0 < length (dfs ex_tester)"
    by (simp_all add: ex_defs)
  have tr: "train ex_externals ex_trainer (KNeighborsClassifier (PyInt 5)) =
     Inr (Models [ex_model\<lparr>estimator := KNeighborsClassifier (PyInt 5)\<rparr>,
                  ex_model\<lparr>estimator := KNeighborsClassifier (PyInt 5)\<rparr>])"
    by (simp add: ex_defs pandas_defs trainer_defs)
  have te: "u_test ex_externals ex_tester [ex_model] PyNone =
     Inr [PredictionResult
           \<lparr>nrows = 2,
            cols = [(''actual'', [0, 1]), (''score'', [1/4, 4/5]), (''predict'', [0, 1])]\<rparr>]"
    by (simp add: ex_defs pandas_defs tester_defs)
  note inst = label_excluded_from_features [of ex_trainer ex_tester ex_externals
      "KNeighborsClassifier (PyInt 5)"
      "Models [ex_model\<lparr>estimator := KNeighborsClassifier (PyInt 5)\<rparr>,
               ex_model\<lparr>estimator := KNeighborsClassifier (PyInt 5)\<rparr>]"
      "[ex_model]" PyNone
      "[PredictionResult
         \<lparr>nrows = 2,
          cols = [(''actual'', [0, 1]), (''score'', [1/4, 4/5]), (''predict'', [0, 1])]\<rparr>]"]
  from inst i1 g1 have a: "Mat 2 [[30, 40]] = feature_matrix (label_colname ex_trainer) (dfs ex_trainer ! 1) \<and>
     Vec [0, 1] = label_array (label_colname ex_trainer) (dfs ex_trainer ! 1)"
    by blast
  from inst i2 g2 have b: "Mat 2 [[30, 40]] = feature_matrix (label_colname ex_tester) (dfs ex_tester ! 0) \<and>
     Vec [0, 1] = label_array (label_colname ex_tester) (dfs ex_tester ! 0)"
    by blast
  from inst tr have c: "list_all2
     (\<lambda>df m. fitted_by ex_externals (KNeighborsClassifier (PyInt 5))
                (feature_matrix (label_colname ex_trainer) df)
                (label_array (label_colname ex_trainer) df) m)
     (dfs ex_trainer)
     [ex_model\<lparr>estimator := KNeighborsClassifier (PyInt 5)\<rparr>,
      ex_model\<lparr>estimator := KNeighborsClassifier (PyInt 5)\<rparr>]"
    by simp
  from inst te have d: "list_all2
     (\<lambda>dm r. tested_on ex_externals (snd dm) (feature_matrix (label_colname ex_tester) (fst dm))
                (label_array (label_colname ex_tester) (fst dm)) r)
     (zip (dfs ex_tester) [ex_model])
     [PredictionResult
       \<lparr>nrows = 2,
        cols = [(''actual'', [0, 1]), (''score'', [1/4, 4/5]), (''predict'', [0, 1])]\<rparr>]"
    by simp
  from g1 g2 a b tr c te d show ?thesis by (intro conjI) simp_all
qed

section \<open>The store model and the value model agree\<close>

text \<open>
  With collaborators that have no effect on the store, every operation over the store
  returns what the operation over frame values returns on the frames the addresses hold,
  and leaves the store as it is.
\<close>

lemma lift_model_simps:
  "decision_function_st (lift_model m) X s = (decision_function m X, s)"
  "predict_proba_st (lift_model m) X s = (predict_proba m X, s)"
  "predict_st (lift_model m) X s = (predict m X, s)"
  "estimator_st (lift_model m) = estimator m"
  by (simp_all add: lift_model_def)

lemma lift_externals_simps:
  "to_float_st (lift_externals E) = to_float E"
  "sk_fit_st (lift_externals E) e X y s = (map_sum id lift_fitted (sk_fit E e X y), s)"
  "with_threshold_st (lift_externals E) t r s = (with_threshold E t r, s)"
  "with_thresholds_st (lift_externals E) ts r s = (with_thresholds E ts r, s)"
  "new_collection_st (lift_externals E) = new_collection E"
  "from_stack_st (lift_externals E) rs index s = (from_stack E rs index, s)"
  "join_st (lift_externals E) c name x s = (join E c name x, s)"
  by (simp_all add: lift_externals_def)

lemma fit_model_st_lift:
  "fit_model_st (lift_externals E) e X y s = (map_sum id lift_model (fit_model E e X y), s)"
  by (cases "sk_fit E e X y")
     (simp_all add: fit_model_st_def fit_model_def store_defs lift_externals_def
        lift_fitted_def lift_model_def raised_def)

lemma fit_loop_st_lift:
  "fit_loop_st (lift_externals E) e k refs s =
     (map_sum id (map lift_model) (fit_loop E e (map (features_and_label k) (map s refs))), s)"
proof (induction refs)
  case Nil
  show ?case by (simp add: return_st_def)
next
  case (Cons a refs)
  show ?case
  proof (cases "features_and_label k (s a)")
    case (Inl err)
    then show ?thesis by (simp add: bind_st_def features_and_label_st_def)
  next
    case (Inr xy)
    obtain X y where xy: "xy = (X, y)" by (cases xy)
    show ?thesis
      using Inr xy Cons.IH
      by (cases "fit_model E e X y"; cases "fit_loop E e (map (features_and_label k) (map s refs))")
         (simp_all add: bind_st_def return_st_def features_and_label_st_def fit_model_st_lift)
  qed
qed

lemma models_or_first_map:
  "models_or_first (map f ms) = map_sum id (map_trained f) (models_or_first ms)"
  by (cases ms) (simp_all add: models_or_first_def)

lemma train_st_lift:
  "train_st (lift_externals E) self e s =
     (map_sum id (map_trained lift_model)
        (train E \<lparr>dfs = map s (dfs_st self), label_colname = label_colname_st self,
                  seed = seed_st self\<rparr> e), s)"
  by (cases "fit_loop E e (map (features_and_label (label_colname_st self)) (map s (dfs_st self)))")
     (simp_all add: train_st_def train_def u_training_data_def fit_loop_st_lift bind_st_def
        pure_st_def models_or_first_map)

lemma y_score_st_lift:
  "y_score_st (lift_model m) X s = (y_score m X, s)"
  by (cases "is_svm_pipeline (estimator m)"; cases "predict_proba m X")
     (simp_all add: y_score_st_def y_score_def store_defs lift_model_simps raised_def)

lemma test_body_st_lift:
  "test_body_st (lift_externals E) (lift_model m) X y s = (test_body E m X y, s)"
proof (cases "y_score m X")
  case (Inl err)
  then show ?thesis
    by (simp add: test_body_st_def test_body_def bind_st_def y_score_st_lift)
next
  case (Inr score)
  then show ?thesis
    by (cases "predict m X";
        cases "DataFrame_float (to_float E)
                 [(''actual'', y), (''score'', score), (''predict'', projr (predict m X))]")
       (simp_all add: test_body_st_def test_body_def store_defs y_score_st_lift
          lift_model_simps lift_externals_simps raised_def)
qed

lemma test_loop_st_lift:
  "test_loop_st (lift_externals E) k refs (map lift_model ms) s =
     (test_loop E (map (features_and_label k) (map s refs)) ms, s)"
proof (induction refs arbitrary: ms)
  case Nil
  show ?case by (simp add: return_st_def)
next
  case (Cons a refs)
  show ?case
  proof (cases "features_and_label k (s a)")
    case (Inl err)
    then show ?thesis by (simp add: bind_st_def features_and_label_st_def)
  next
    case (Inr xy)
    obtain X y where xy: "xy = (X, y)" by (cases xy)
    show ?thesis
    proof (cases ms)
      case Nil
      with Inr xy show ?thesis
        by (simp add: bind_st_def return_st_def features_and_label_st_def)
    next
      case (Cons m ms')
      with Inr xy Cons.IH [of ms'] show ?thesis
        by (cases "test_body E m X y";
            cases "test_loop E (map (features_and_label k) (map s refs)) ms'")
           (simp_all add: bind_st_def return_st_def features_and_label_st_def
              test_body_st_lift)
    qed
  qed
qed

lemma with_threshold_each_st_lift:
  "with_threshold_each_st (lift_externals E) t rs s = (with_threshold_each E t rs, s)"
proof (induction rs)
  case Nil
  show ?case by (simp add: return_st_def)
next
  case (Cons r rs)
  then show ?case
    by (cases "with_threshold E t r"; cases "with_threshold_each E t rs")
       (simp_all add: store_defs lift_externals_simps raised_def)
qed

lemma u_test_st_lift:
  "u_test_st (lift_externals E) self (map lift_model models) threshold s =
     (u_test E \<lparr>dfs = map s (dfs_st self), label_colname = label_colname_st self\<rparr>
        models threshold, s)"
  by (cases "test_loop E (map (features_and_label (label_colname_st self)) (map s (dfs_st self)))
               models")
     (simp_all add: u_test_st_def u_test_def u_test_data_def test_loop_st_lift
        with_threshold_each_st_lift store_defs)

lemma test_st_lift:
  "test_st (lift_externals E) self (map lift_model models) threshold s =
     (test E \<lparr>dfs = map s (dfs_st self), label_colname = label_colname_st self\<rparr>
        models threshold, s)"
proof (cases "u_test E \<lparr>dfs = map s (dfs_st self), label_colname = label_colname_st self\<rparr>
               models PyNone")
  case (Inl err)
  then show ?thesis by (simp add: test_st_def test_def bind_st_def u_test_st_lift)
next
  case (Inr results)
  then show ?thesis
    by (cases "from_stack E results None"; cases results)
       (simp_all add: test_st_def test_def store_defs u_test_st_lift lift_externals_simps
          raised_def)
qed

text \<open>
  The store is not idle: a fitting routine that empties the frame at address 0 leaves it
  emptied, and the generator, resumed after that fit, finds no label column there.
\<close>

lemma clobbering_fit_changes_dataset:
  "dummy_st ex_clobbering (ex_self_st\<lparr>dfs_st := [1, 0]\<rparr>) ex_store =
     (Inl KeyError, ex_store(0 := \<lparr>nrows = 0, cols = []\<rparr>))"
  by (simp add: dummy_st_def train_st_def fit_model_st_def store_defs ex_clobbering_def
      ex_self_st_def ex_store_def ex_frame_def lift_externals_def pandas_defs raised_def)

section \<open>The datasets of the caller\<close>

lemma unchanged_return: "unchanged_on A (return_st x)"
  by (simp add: unchanged_on_def return_st_def)

lemma unchanged_pure: "unchanged_on A (pure_st r)"
  by (simp add: unchanged_on_def pure_st_def)

lemma unchanged_opaque: "unchanged_on A f \<Longrightarrow> unchanged_on A (opaque_st f)"
  by (auto simp: unchanged_on_def opaque_st_def split: prod.splits)
     (metis snd_conv)

lemma unchanged_bind:
  assumes "unchanged_on A f" and "\<And>x. unchanged_on A (g x)"
  shows "unchanged_on A (bind_st f g)"
  unfolding unchanged_on_def
proof (intro allI ballI)
  fix s a
  assume a: "a \<in> A"
  obtain r s' where fs: "f s = (r, s')" by (cases "f s")
  from assms(1) a fs have s': "s' a = s a"
    by (auto simp: unchanged_on_def dest!: spec [of _ s])
  show "snd (bind_st f g s) a = s a"
  proof (cases r)
    case (Inl e)
    with fs s' show ?thesis by (simp add: bind_st_def)
  next
    case (Inr x)
    from assms(2) [of x] a have "snd (g x s') a = s' a"
      by (simp add: unchanged_on_def)
    with Inr fs s' show ?thesis by (simp add: bind_st_def)
  qed
qed

lemma unchanged_features_and_label: "unchanged_on A (features_and_label_st k a)"
  by (simp add: unchanged_on_def features_and_label_st_def)

lemma unchanged_fit_model:
  "externals_keep A E \<Longrightarrow> unchanged_on A (fit_model_st E e X y)"
  unfolding fit_model_st_def
  by (intro unchanged_bind unchanged_opaque unchanged_return) (simp add: externals_keep_def)

lemma unchanged_fit_loop:
  assumes "externals_keep A E"
  shows "unchanged_on A (fit_loop_st E e k refs)"
proof (induction refs)
  case Nil
  show ?case by (simp add: unchanged_return)
next
  case (Cons a refs)
  show ?case
    by (simp add: split_def)
       (intro unchanged_bind unchanged_features_and_label unchanged_fit_model [OF assms]
          Cons.IH unchanged_return)
qed

lemma unchanged_train:
  "externals_keep A E \<Longrightarrow> unchanged_on A (train_st E self e)"
  unfolding train_st_def
  by (intro unchanged_bind unchanged_fit_loop unchanged_pure)

lemma unchanged_call0: "unchanged_on A f \<Longrightarrow> unchanged_on A (call0_st f params)"
  by (simp add: call0_st_def unchanged_pure split: list.splits)

lemma unchanged_call1:
  "(\<And>v. unchanged_on A (f v)) \<Longrightarrow> unchanged_on A (call1_st kw dflt f params)"
  by (simp add: call1_st_def unchanged_pure split: list.splits prod.splits)

lemma unchanged_train_all_loop:
  assumes "\<forall>nf \<in> set ms. \<forall>params. unchanged_on A (snd nf params)"
  shows "unchanged_on A (train_all_loop_st parameters exclude ms models)"
  using assms
proof (induction ms arbitrary: models)
  case Nil
  show ?case by (simp add: unchanged_return)
next
  case (Cons nf ms)
  obtain name func where nf: "nf = (name, func)" by (cases nf)
  have f: "unchanged_on A (func params)" for params
    using Cons.prems nf by simp
  have r: "unchanged_on A (train_all_loop_st parameters exclude ms models')" for models'
    using Cons.IH [of models'] Cons.prems by simp
  show ?case
    unfolding nf by (simp add: then_do_def) (intro unchanged_bind f r)
qed

lemma unchanged_methods:
  assumes "externals_keep A E"
  shows "\<forall>nf \<in> set (methods_st E self). \<forall>params. unchanged_on A (snd nf params)"
  by (auto simp: methods_st_def dummy_st_def logistic_regression_st_def decision_tree_st_def
      k_nearest_st_def linear_svm_st_def forest_st_def bagging_st_def boosting_st_def
      intro!: unchanged_call0 unchanged_call1 unchanged_train [OF assms])

lemma unchanged_train_all:
  "externals_keep A E \<Longrightarrow> unchanged_on A (train_all_st E self parameters exclude)"
  unfolding train_all_st_def
  by (rule unchanged_train_all_loop) (rule unchanged_methods)

lemma unchanged_y_score:
  "model_keeps A m \<Longrightarrow> unchanged_on A (y_score_st m X)"
  unfolding y_score_st_def
  by (intro unchanged_bind unchanged_pure)
     (auto simp: model_keeps_def intro!: unchanged_bind unchanged_opaque unchanged_pure)

lemma unchanged_test_body:
  "model_keeps A m \<Longrightarrow> unchanged_on A (test_body_st E m X y)"
  unfolding test_body_st_def
  by (intro unchanged_bind unchanged_y_score unchanged_pure unchanged_return unchanged_opaque)
     (simp_all add: model_keeps_def)

lemma unchanged_test_loop:
  assumes "\<forall>m \<in> set models. model_keeps A m"
  shows "unchanged_on A (test_loop_st E k refs models)"
  using assms
proof (induction refs arbitrary: models)
  case Nil
  show ?case by (simp add: unchanged_return)
next
  case (Cons a refs)
  show ?case
  proof (cases models)
    case Nil
    then show ?thesis
      by (simp add: split_def)
         (intro unchanged_bind unchanged_features_and_label unchanged_return)
  next
    case ms: (Cons m models')
    with Cons.prems have m: "model_keeps A m" and ms': "\<forall>m \<in> set models'. model_keeps A m"
      by simp_all
    show ?thesis
      unfolding ms
      by (simp add: split_def)
         (intro unchanged_bind unchanged_features_and_label unchanged_test_body [OF m]
            Cons.IH [OF ms'] unchanged_return)
  qed
qed

lemma unchanged_with_threshold_each:
  assumes "externals_keep A E"
  shows "unchanged_on A (with_threshold_each_st E t rs)"
proof (induction rs)
  case Nil
  show ?case by (simp add: unchanged_return)
next
  case (Cons r rs)
  from assms have "unchanged_on A (with_threshold_st E t r)" by (simp add: externals_keep_def)
  then show ?case
    by simp (intro unchanged_bind unchanged_opaque Cons.IH unchanged_return)
qed

lemma unchanged_u_test:
  assumes "externals_keep A E" and "\<forall>m \<in> set models. model_keeps A m"
  shows "unchanged_on A (u_test_st E self models threshold)"
proof (cases "length models \<noteq> length (dfs_st self)")
  case True
  then show ?thesis by (simp add: u_test_st_def unchanged_pure)
next
  case False
  have "unchanged_on A
          (if truthy threshold then with_threshold_each_st E threshold results
           else return_st results)" for results
    by (simp add: unchanged_with_threshold_each [OF assms(1)] unchanged_return)
  with False show ?thesis
    by (simp add: u_test_st_def) (intro unchanged_bind unchanged_test_loop [OF assms(2)])
qed

lemma unchanged_test:
  assumes "externals_keep A E" and "\<forall>m \<in> set models. model_keeps A m"
  shows "unchanged_on A (test_st E self models threshold)"
proof -
  have fs: "unchanged_on A (from_stack_st E results None)" for results
    using assms(1) by (simp add: externals_keep_def)
  have "unchanged_on A
          (if 1 < length results
           then bind_st (opaque_st (from_stack_st E results None)) (\<lambda>c. return_st (Inr c))
           else (case results of [] \<Rightarrow> pure_st (Inl IndexError) | r # _ \<Rightarrow> return_st (Inl r)))"
    for results
    by (auto simp: unchanged_pure unchanged_return split: list.splits
        intro!: unchanged_bind unchanged_opaque fs)
  then show ?thesis
    unfolding test_st_def by (intro unchanged_bind unchanged_u_test [OF assms])
qed


lemma unchanged_evaluate_loop:
  assumes "externals_keep A E" and "\<forall>nm \<in> set model_dict. model_keeps A (snd nm)"
  shows "unchanged_on A (evaluate_loop_st E self thresholds model_dict collection)"
  using assms(2)
proof (induction model_dict arbitrary: collection)
  case Nil
  show ?case by (simp add: unchanged_return)
next
  case (Cons nm model_dict)
  obtain name m where nm: "nm = (name, m)" by (cases nm)
  from Cons.prems nm have m: "\<forall>m' \<in> set [m]. model_keeps A m'" by simp
  have rest: "unchanged_on A (evaluate_loop_st E self thresholds model_dict c)" for c
    using Cons.IH [of c] Cons.prems by simp
  have lib:
    "unchanged_on A (with_thresholds_st E ts r)"
    "unchanged_on A (from_stack_st E rs index)"
    "unchanged_on A (join_st E c name' x)" for ts r rs index c name' x
    using assms(1) by (simp_all add: externals_keep_def)
  have joined: "unchanged_on A
      (case thresholds of
         Some (th # ths) \<Rightarrow>
           bind_st (opaque_st (with_thresholds_st E (th # ths) result))
             (\<lambda>results. bind_st (opaque_st (from_stack_st E results (Some (th # ths))))
                (\<lambda>this_collection.
                   opaque_st (join_st E collection name (Inr this_collection))))
       | _ \<Rightarrow> opaque_st (join_st E collection name (Inl result)))" for result
    by (auto split: option.splits list.splits intro!: unchanged_bind unchanged_opaque lib)
  have step: "unchanged_on A
      (case rs of
         [] \<Rightarrow> pure_st (Inl IndexError)
       | result # _ \<Rightarrow>
           bind_st
             (case thresholds of
                Some (th # ths) \<Rightarrow>
                  bind_st (opaque_st (with_thresholds_st E (th # ths) result))
                    (\<lambda>results. bind_st (opaque_st (from_stack_st E results (Some (th # ths))))
                       (\<lambda>this_collection.
                          opaque_st (join_st E collection name (Inr this_collection))))
              | _ \<Rightarrow> opaque_st (join_st E collection name (Inl result)))
             (\<lambda>collection'. evaluate_loop_st E self thresholds model_dict collection'))" for rs
    by (cases rs) (auto simp: unchanged_pure intro!: unchanged_bind joined rest)
  show ?case
    unfolding nm
    by simp (intro unchanged_bind unchanged_u_test [OF assms(1) m] step)
qed

lemma unchanged_evaluate_splits_loop:
  assumes "externals_keep A E"
    and "\<forall>nms \<in> set split_dict. \<forall>m \<in> set (snd nms). model_keeps A m"
  shows "unchanged_on A (evaluate_splits_loop_st E self threshold split_dict collection)"
  using assms(2)
proof (induction split_dict arbitrary: collection)
  case Nil
  show ?case by (simp add: unchanged_return)
next
  case (Cons nms split_dict)
  obtain name models where nms: "nms = (name, models)" by (cases nms)
  from Cons.prems nms have ms: "\<forall>m \<in> set models. model_keeps A m" by simp
  have rest: "unchanged_on A (evaluate_splits_loop_st E self threshold split_dict c)" for c
    using Cons.IH [of c] Cons.prems by simp
  have lib:
    "unchanged_on A (from_stack_st E rs index)"
    "unchanged_on A (join_st E c name' x)" for rs index c name' x
    using assms(1) by (simp_all add: externals_keep_def)
  show ?case
    unfolding nms
    by simp
       (intro unchanged_bind unchanged_u_test [OF assms(1) ms] unchanged_opaque lib rest)
qed

text \<open>
  C7. None of the training and testing operations changes a frame of its caller: if the
  calls out of the module (fitting, the methods of the models, the result module) leave the
  frames at the addresses \<open>A\<close> as they are, then so does each operation, on every store and
  whether it returns or raises. The addresses of the datasets the trainer or tester holds are
  one such \<open>A\<close>.
\<close>

theorem datasets_unchanged:
  assumes "externals_keep A E"
    and "\<forall>m \<in> set models. model_keeps A m"
    and "\<forall>nm \<in> set model_dict. model_keeps A (snd nm)"
    and "\<forall>nms \<in> set split_dict. \<forall>m \<in> set (snd nms). model_keeps A m"
  shows "unchanged_on A (dummy_st E self) \<and>
         unchanged_on A (logistic_regression_st E self c) \<and>
         unchanged_on A (decision_tree_st E self max_depth) \<and>
         unchanged_on A (k_nearest_st E self k) \<and>
         unchanged_on A (linear_svm_st E self c') \<and>
         unchanged_on A (forest_st E self n_trees) \<and>
         unchanged_on A (bagging_st E self n_bag) \<and>
         unchanged_on A (boosting_st E self n_boost) \<and>
         unchanged_on A (train_all_st E self parameters exclude) \<and>
         unchanged_on A (u_test_st E self models threshold) \<and>
         unchanged_on A (test_st E self models threshold) \<and>
         unchanged_on A (evaluate_st E self model_dict thresholds) \<and>
         unchanged_on A (evaluate_splits_st E self split_dict threshold)"
  unfolding dummy_st_def logistic_regression_st_def decision_tree_st_def k_nearest_st_def
    linear_svm_st_def forest_st_def bagging_st_def boosting_st_def evaluate_st_def
    evaluate_splits_st_def
  by (intro conjI unchanged_train [OF assms(1)] unchanged_train_all [OF assms(1)]
      unchanged_u_test [OF assms(1,2)] unchanged_test [OF assms(1,2)]
      unchanged_evaluate_loop [OF assms(1,3)] unchanged_evaluate_splits_loop [OF assms(1,4)])

lemma lift_externals_keep: "externals_keep A (lift_externals E)"
  by (simp add: externals_keep_def lift_externals_def unchanged_on_def)

lemma lift_model_keeps: "model_keeps A (lift_model m)"
  by (simp add: model_keeps_def lift_model_def unchanged_on_def)

theorem datasets_unchanged_witness:
  "externals_keep {0, 1} (lift_externals ex_externals :: (string, real, string list) externals_st) \<and>
   model_keeps {0, 1} (lift_model ex_model :: (string, real) model_st) \<and>
   model_keeps {0, 1} (lift_model ex_svm_model :: (string, real) model_st) \<and>
   unchanged_on {0, 1} (linear_svm_st (lift_externals ex_externals) ex_self_st (PyInt 1)) \<and>
   unchanged_on {0, 1}
     (u_test_st (lift_externals ex_externals) ex_self_st
        [lift_model ex_model, lift_model ex_svm_model] PyNone) \<and>
   snd (u_test_st (lift_externals ex_externals) ex_self_st
          [lift_model ex_model, lift_model ex_svm_model] PyNone ex_store) 1 = ex_frame"
proof -
  have e: "externals_keep {0, 1}
      (lift_externals ex_externals :: (string, real, string list) externals_st)"
    by (rule lift_externals_keep)
  have m: "\<forall>m \<in> set [lift_model ex_model, lift_model ex_svm_model :: (string, real) model_st].
      model_keeps {0, 1} m"
    by (simp add: lift_model_keeps)
  have d: "\<forall>nm \<in> set ([] :: (string \<times> (string, real) model_st) list).
      model_keeps {0, 1} (snd nm)"
    by simp
  have s: "\<forall>nms \<in> set ([] :: (string \<times> (string, real) model_st list) list).
      \<forall>m \<in> set (snd nms). model_keeps {0, 1} m"
    by simp
  note inst = datasets_unchanged [OF e m d s, of ex_self_st _ _ _ "PyInt 1" _ _ _ _ _ PyNone]
  from inst have l: "unchanged_on {0, 1} (linear_svm_st (lift_externals ex_externals) ex_self_st (PyInt 1))"
    by blast
  from inst have u: "unchanged_on {0, 1}
     (u_test_st (lift_externals ex_externals) ex_self_st
        [lift_model ex_model, lift_model ex_svm_model] PyNone)"
    by blast
  from u have "snd (u_test_st (lift_externals ex_externals) ex_self_st
          [lift_model ex_model, lift_model ex_svm_model] PyNone ex_store) 1 = ex_store 1"
    by (simp add: unchanged_on_def)
  then have c: "snd (u_test_st (lift_externals ex_externals) ex_self_st
          [lift_model ex_model, lift_model ex_svm_model] PyNone ex_store) 1 = ex_frame"
    by (simp add: ex_store_def)
  have k: "model_keeps {0, 1} (lift_model ex_model :: (string, real) model_st)"
    "model_keeps {0, 1} (lift_model ex_svm_model :: (string, real) model_st)"
    by (rule lift_model_keeps)+
  from e k l u c show ?thesis by (intro conjI)
qed

end
